theory Spec2Isabelle
  imports Main
begin

section \<open>JavaScript values and strings\<close>

text \<open>
  The dispatcher is JavaScript. A JavaScript string is modelled as a \<^typ>\<open>string\<close> whose
  characters are the code units \<open>0..255\<close> (ASCII and Latin-1), which is the range an
  Isabelle \<^typ>\<open>char\<close> holds; no surrogate occurs there, so \<open>encodeURIComponent\<close> never
  raises. An object is the list of its own enumerable entries in \<open>Object.entries\<close> order.

  A number is one of two kinds. A safe integer (magnitude at most \<open>2^53 - 1\<close>, the range in
  which every integer is a number of its own and prints as its decimal digits) is
  \<open>JNum n\<close>; \<open>JNum n\<close> with \<open>n\<close> outside that range stands for no number. Any other
  number (a fraction, a magnitude from \<open>2^53\<close> on, \<open>NaN\<close>, an infinity) is \<open>JOtherNum t\<close>,
  carried as the text \<open>t\<close> that \<open>Number.prototype.toString\<close> of the runtime prints for it,
  such as \<open>1.5\<close> or \<open>1e+21\<close>: that algorithm is the runtime's and is not modelled.
\<close>

datatype jsval =
    JUndefined
  | JNull
  | JBool bool
  | JNum int
  | JOtherNum string
  | JStr string
  | JArr "jsval list"
  | JObj "(string \<times> jsval) list"

text \<open>Truthiness, as \<open>if (v)\<close>, \<open>!v\<close> and \<open>a || b\<close> test it.\<close>

fun truthy :: "jsval \<Rightarrow> bool" where
  "truthy JUndefined = False"
| "truthy JNull = False"
| "truthy (JBool b) = b"
| "truthy (JNum n) = (n \<noteq> 0)"
| "truthy (JOtherNum t) = (t \<noteq> ''NaN'')"
| "truthy (JStr s) = (s \<noteq> [])"
| "truthy (JArr _) = True"
| "truthy (JObj _) = True"

text \<open>\<open>Array.prototype.join\<close> on strings.\<close>

fun join :: "string \<Rightarrow> string list \<Rightarrow> string" where
  "join sep [] = []"
| "join sep [x] = x"
| "join sep (x # y # ys) = x @ sep @ join sep (y # ys)"

definition hex_upper :: "nat \<Rightarrow> char" where
  "hex_upper n = ''0123456789ABCDEF'' ! (n mod 16)"

definition hex_lower :: "nat \<Rightarrow> char" where
  "hex_lower n = ''0123456789abcdef'' ! (n mod 16)"

definition pct_byte :: "nat \<Rightarrow> string" where
  "pct_byte b = [CHR ''%'', hex_upper (b div 16), hex_upper b]"

text \<open>UTF-8 of a code point below 256: one byte for ASCII, two for Latin-1.\<close>

definition utf8 :: "char \<Rightarrow> nat list" where
  "utf8 c = (let n = (of_char c :: nat) in
     if n < 128 then [n] else [192 + n div 64, 128 + n mod 64])"

definition alnum :: "char \<Rightarrow> bool" where
  "alnum c \<longleftrightarrow>
     c \<in> set ''ABCDEFGHIJKLMNOPQRSTUVWXYZabcdefghijklmnopqrstuvwxyz0123456789''"

text \<open>
  \<open>encodeURIComponent\<close>: letters, digits and \<open>- _ . ! ~ * ' ( )\<close> stay, every other
  character becomes the \<open>%XX\<close> escapes of its UTF-8 bytes.
\<close>

definition uri_unreserved :: "char \<Rightarrow> bool" where
  "uri_unreserved c \<longleftrightarrow> alnum c \<or> c \<in> set ''-_.!~*()'' \<or> c = CHR 0x27"

definition encodeURIComponent :: "string \<Rightarrow> string" where
  "encodeURIComponent s =
     concat (map (\<lambda>c. if uri_unreserved c then [c] else concat (map pct_byte (utf8 c))) s)"

text \<open>
  \<open>String.prototype.replace(pattern, replacement)\<close> with a string pattern rewrites the
  first occurrence of the pattern only. \<open>split_first\<close> is the search (\<open>StringIndexOf\<close>
  from position 0): the text before the first occurrence and the text after it.
  \<open>get_substitution\<close> expands the \<open>$\<close> patterns of the replacement (\<open>$$\<close>, \<open>$&\<close>,
  \<open>$`\<close>, \<open>$'\<close>; with a string pattern there are no captures, so \<open>$1\<close> stays).
\<close>

fun split_first :: "string \<Rightarrow> string \<Rightarrow> (string \<times> string) option" where
  "split_first pat [] = (if pat = [] then Some ([], []) else None)"
| "split_first pat (c # cs) =
     (if take (length pat) (c # cs) = pat then Some ([], drop (length pat) (c # cs))
      else map_option (\<lambda>(pre, post). (c # pre, post)) (split_first pat cs))"

definition str_includes :: "string \<Rightarrow> string \<Rightarrow> bool" where
  "str_includes s pat \<longleftrightarrow> split_first pat s \<noteq> None"

fun get_substitution :: "string \<Rightarrow> string \<Rightarrow> string \<Rightarrow> string \<Rightarrow> string" where
  "get_substitution m pre post [] = []"
| "get_substitution m pre post [c] = [c]"
| "get_substitution m pre post (c # d # r) =
     (if c \<noteq> CHR ''$'' then c # get_substitution m pre post (d # r)
      else if d = CHR ''$'' then CHR ''$'' # get_substitution m pre post r
      else if d = CHR ''&'' then m @ get_substitution m pre post r
      else if d = CHR 0x60 then pre @ get_substitution m pre post r
      else if d = CHR 0x27 then post @ get_substitution m pre post r
      else c # get_substitution m pre post (d # r))"

definition replace :: "string \<Rightarrow> string \<Rightarrow> string \<Rightarrow> string" where
  "replace s pat rep =
     (case split_first pat s of
        None \<Rightarrow> s
      | Some (pre, post) \<Rightarrow> pre @ get_substitution pat pre post rep @ post)"

text \<open>
  A property read \<open>obj[key]\<close> on an object literal finds the object's own entry or, failing
  that, the member of that name which every plain object inherits from
  \<open>Object.prototype\<close> (a function, or the prototype itself for \<open>__proto__\<close>: truthy
  values, none of which has a property the dispatcher reads).
\<close>

definition object_prototype_members :: "string list" where
  "object_prototype_members =
     [''constructor'', ''__defineGetter__'', ''__defineSetter__'', ''hasOwnProperty'',
      ''__lookupGetter__'', ''__lookupSetter__'', ''isPrototypeOf'', ''propertyIsEnumerable'',
      ''toString'', ''valueOf'', ''__proto__'', ''toLocaleString'']"

datatype 'a property = Own 'a | Inherited string | Absent

definition get_property :: "(string \<times> 'a) list \<Rightarrow> string \<Rightarrow> 'a property" where
  "get_property entries key =
     (case map_of entries key of
        Some v \<Rightarrow> Own v
      | None \<Rightarrow> if key \<in> set object_prototype_members then Inherited key else Absent)"

text \<open>
  \<open>String(n)\<close> of a safe integer: its decimal text. Outside the safe range the decimal
  text is not what the runtime prints (it rounds from \<open>2^53\<close> on and prints an exponent
  from \<open>10^21\<close> on); \<open>representable\<close> says that a value holds no such \<open>JNum\<close>.
\<close>

fun digits :: "nat \<Rightarrow> string" where
  "digits n = (if n < 10 then [''0123456789'' ! n]
               else digits (n div 10) @ [''0123456789'' ! (n mod 10)])"

declare digits.simps [simp del]

definition number_text :: "int \<Rightarrow> string" where
  "number_text n = (if n < 0 then CHR ''-'' # digits (nat (- n)) else digits (nat n))"

definition MAX_SAFE_INTEGER :: int where
  "MAX_SAFE_INTEGER = 9007199254740991"

definition safe_integer :: "int \<Rightarrow> bool" where
  "safe_integer n \<longleftrightarrow> - MAX_SAFE_INTEGER \<le> n \<and> n \<le> MAX_SAFE_INTEGER"

fun representable :: "jsval \<Rightarrow> bool"
  and representable_elements :: "jsval list \<Rightarrow> bool"
  and representable_members :: "(string \<times> jsval) list \<Rightarrow> bool" where
  "representable (JNum n) = safe_integer n"
| "representable (JArr xs) = representable_elements xs"
| "representable (JObj kvs) = representable_members kvs"
| "representable JUndefined = True"
| "representable JNull = True"
| "representable (JBool b) = True"
| "representable (JOtherNum t) = True"
| "representable (JStr s) = True"
| "representable_elements [] = True"
| "representable_elements (x # xs) = (representable x \<and> representable_elements xs)"
| "representable_members [] = True"
| "representable_members ((k, v) # kvs) = (representable v \<and> representable_members kvs)"

text \<open>
  \<open>JSON.stringify(value)\<close> without replacer or indentation. A finite number prints as
  \<open>String\<close> prints it, \<open>NaN\<close> and the infinities print as \<open>null\<close>. Strings are quoted with the
  escapes of \<open>QuoteJSONString\<close>; an undefined array element prints as \<open>null\<close>, an
  undefined member is left out, and \<open>JSON.stringify(undefined)\<close> is undefined
  (\<open>None\<close>).
\<close>

definition quote_char :: "char \<Rightarrow> string" where
  "quote_char c = (let n = (of_char c :: nat) in
     if c = CHR 0x22 then [CHR 0x5C, CHR 0x22]
     else if c = CHR 0x5C then [CHR 0x5C, CHR 0x5C]
     else if n = 8 then [CHR 0x5C, CHR ''b'']
     else if n = 12 then [CHR 0x5C, CHR ''f'']
     else if n = 10 then [CHR 0x5C, CHR ''n'']
     else if n = 13 then [CHR 0x5C, CHR ''r'']
     else if n = 9 then [CHR 0x5C, CHR ''t'']
     else if n < 32 then [CHR 0x5C, CHR ''u'', CHR ''0'', CHR ''0'', hex_lower (n div 16), hex_lower n]
     else [c])"

definition quote_json :: "string \<Rightarrow> string" where
  "quote_json s = CHR 0x22 # concat (map quote_char s) @ [CHR 0x22]"

fun JSON_stringify :: "jsval \<Rightarrow> string option"
  and json_elements :: "jsval list \<Rightarrow> string list"
  and json_members :: "(string \<times> jsval) list \<Rightarrow> string list" where
  "JSON_stringify JUndefined = None"
| "JSON_stringify JNull = Some ''null''"
| "JSON_stringify (JBool b) = Some (if b then ''true'' else ''false'')"
| "JSON_stringify (JNum n) = Some (number_text n)"
| "JSON_stringify (JOtherNum t) =
     Some (if t \<in> set [''NaN'', ''Infinity'', ''-Infinity''] then ''null'' else t)"
| "JSON_stringify (JStr s) = Some (quote_json s)"
| "JSON_stringify (JArr xs) = Some (''['' @ join '','' (json_elements xs) @ '']'')"
| "JSON_stringify (JObj kvs) = Some (''{'' @ join '','' (json_members kvs) @ ''}'')"
| "json_elements [] = []"
| "json_elements (x # xs) =
     (case JSON_stringify x of None \<Rightarrow> ''null'' | Some t \<Rightarrow> t) # json_elements xs"
| "json_members [] = []"
| "json_members ((k, v) # kvs) =
     (case JSON_stringify v of
        None \<Rightarrow> json_members kvs
      | Some t \<Rightarrow> (quote_json k @ '':'' @ t) # json_members kvs)"

text \<open>A value inside a template literal or a string concatenation.\<close>

definition text_or_undefined :: "string option \<Rightarrow> string" where
  "text_or_undefined v = (case v of None \<Rightarrow> ''undefined'' | Some s \<Rightarrow> s)"

text \<open>
  \<open>URLSearchParams\<close>: an ordered list of name/value pairs. \<open>set\<close> overwrites the first pair
  of the name and drops its other pairs, or appends. \<open>toString\<close> is the
  \<open>application/x-www-form-urlencoded\<close> serializer: letters, digits and \<open>* - . _\<close> stay, a
  space becomes \<open>+\<close>, every other character becomes the \<open>%XX\<close> escapes of its UTF-8
  bytes.
\<close>

fun usp_set :: "(string \<times> string) list \<Rightarrow> string \<Rightarrow> string \<Rightarrow> (string \<times> string) list" where
  "usp_set [] k v = [(k, v)]"
| "usp_set ((k', v') # ps) k v =
     (if k' = k then (k, v) # filter (\<lambda>p. fst p \<noteq> k) ps else (k', v') # usp_set ps k v)"

definition form_encode :: "string \<Rightarrow> string" where
  "form_encode s =
     concat (map (\<lambda>c. if c = CHR '' '' then ''+''
                       else if alnum c \<or> c \<in> set ''*-._'' then [c]
                       else concat (map pct_byte (utf8 c))) s)"

definition usp_toString :: "(string \<times> string) list \<Rightarrow> string" where
  "usp_toString ps = join ''&'' (map (\<lambda>(k, v). form_encode k @ ''='' @ form_encode v) ps)"

section \<open>Request builder (src/api/client.js)\<close>

text \<open>
  The resolved configuration \<open>config.midazApi\<close>; a missing one is the record of absent
  fields (\<open>config.midazApi || {}\<close>).
\<close>

record midazApi =
  onboardingUrl :: "string option"
  transactionUrl :: "string option"
  crmUrl :: "string option"
  ledgerUrl :: "string option"
  timeout :: "nat option"
  authToken :: "string option"

text \<open>
  \<open>getComponentUrl\<close>: \<open>urlMap[component] || midazApi.onboardingUrl\<close>. The read finds one of
  the four configured URLs, a member inherited from \<open>Object.prototype\<close>, or nothing; an
  absent or empty URL falls back to the onboarding URL, which may itself be undefined.
\<close>

datatype base_url = Url string | NoUrl | InheritedMember string

definition getComponentUrl :: "midazApi \<Rightarrow> string \<Rightarrow> base_url" where
  "getComponentUrl api component =
     (let urlMap = [(''onboarding'', onboardingUrl api), (''transaction'', transactionUrl api),
                    (''crm'', crmUrl api), (''ledger'', ledgerUrl api)];
          fallback = (case onboardingUrl api of Some u \<Rightarrow> Url u | None \<Rightarrow> NoUrl)
      in case get_property urlMap component of
           Own (Some u) \<Rightarrow> if u \<noteq> [] then Url u else fallback
         | Own None \<Rightarrow> fallback
         | Inherited m \<Rightarrow> InheritedMember m
         | Absent \<Rightarrow> fallback)"

text \<open>
  The base URL inside a template literal: the URL, the text \<open>undefined\<close>, or the text of
  the inherited member as Node.js prints it.
\<close>

definition base_text :: "base_url \<Rightarrow> string" where
  "base_text b =
     (case b of
        Url u \<Rightarrow> u
      | NoUrl \<Rightarrow> ''undefined''
      | InheritedMember m \<Rightarrow>
          if m = ''__proto__'' then ''[object Object]''
          else ''function '' @ (if m = ''constructor'' then ''Object'' else m)
               @ ''() { [native code] }'')"

text \<open>
  \<open>buildUrl(baseUrl, pathTemplate, pathParams)\<close>. The loop runs over
  \<open>Object.entries(pathParams)\<close>, the list the model takes; an absent
  \<open>pathParams\<close> skips the loop as the empty object does, so both are the empty list.
  The values are strings (the tool's input schema is a record of strings). An undefined
  template is \<open>None\<close>: the template literal prints it as \<open>undefined\<close>, and
  \<open>undefined.replace\<close> raises a TypeError as soon as the loop has an entry.
\<close>

record js_error =
  err_name :: string
  err_message :: string
  err_status :: "nat option"
  err_statusText :: "string option"
  err_body :: "jsval option"
  err_url :: "string option"

definition new_error :: "string \<Rightarrow> string \<Rightarrow> js_error" where
  "new_error n m = \<lparr>err_name = n, err_message = m, err_status = None,
     err_statusText = None, err_body = None, err_url = None\<rparr>"

fun resolvedPath :: "string \<Rightarrow> (string \<times> string) list \<Rightarrow> string" where
  "resolvedPath p [] = p"
| "resolvedPath p ((key, v) # rest) =
     resolvedPath (replace p (CHR '':'' # key) (encodeURIComponent v)) rest"

definition buildUrl ::
  "base_url \<Rightarrow> string option \<Rightarrow> (string \<times> string) list \<Rightarrow> js_error + string" where
  "buildUrl baseUrl pathTemplate pathParams =
     (case pathTemplate of
        Some t \<Rightarrow> Inr (base_text baseUrl @ resolvedPath t pathParams)
      | None \<Rightarrow>
          if pathParams = [] then Inr (base_text baseUrl @ ''undefined'')
          else Inl (new_error ''TypeError''
                 ''Cannot read properties of undefined (reading 'replace')''))"

text \<open>
  \<open>buildQueryString(queryParams)\<close>: an absent \<open>queryParams\<close> returns the empty string as
  the empty object does. \<open>typeof value === 'object'\<close> holds of arrays and objects (\<open>null\<close>
  is excluded before); the other values left are booleans, numbers and strings, which
  \<open>String(value)\<close> prints.
\<close>

definition query_value :: "jsval \<Rightarrow> string option" where
  "query_value v =
     (case v of
        JUndefined \<Rightarrow> None
      | JNull \<Rightarrow> None
      | JArr xs \<Rightarrow> Some (text_or_undefined (JSON_stringify v))
      | JObj kvs \<Rightarrow> Some (text_or_undefined (JSON_stringify v))
      | JBool b \<Rightarrow> Some (if b then ''true'' else ''false'')
      | JNum n \<Rightarrow> Some (number_text n)
      | JOtherNum t \<Rightarrow> Some t
      | JStr s \<Rightarrow> Some s)"

fun query_params :: "(string \<times> string) list \<Rightarrow> (string \<times> jsval) list \<Rightarrow> (string \<times> string) list" where
  "query_params params [] = params"
| "query_params params ((key, v) # rest) =
     (case query_value v of
        None \<Rightarrow> query_params params rest
      | Some t \<Rightarrow> query_params (usp_set params key t) rest)"

definition buildQueryString :: "(string \<times> jsval) list \<Rightarrow> string" where
  "buildQueryString queryParams =
     (if queryParams = [] then []
      else let qs = usp_toString (query_params [] queryParams)
           in if qs \<noteq> [] then CHR ''?'' # qs else [])"

section \<open>HTTP executor (src/api/client.js)\<close>

text \<open>
  The outbound call is the only effect of this layer. \<open>fetch\<close> is a parameter: a function
  from the request to a rejection (a network error, a timeout) or a response. Every
  operation returns its outcome together with the list of requests it issued, so that
  ``no network call'' is the empty list. A response offers its body through
  \<open>response.json()\<close> and \<open>response.text()\<close>, each of which may reject (a body that is not
  JSON, a connection cut while reading). Header names are lower case, as \<open>Headers\<close> keeps
  them.
\<close>

record request =
  req_url :: string
  req_method :: string
  req_headers :: "(string \<times> string) list"
  req_body :: "string option"
  req_timeout :: nat

record response =
  resp_status :: nat
  resp_statusText :: string
  resp_headers :: "(string \<times> string) list"
  resp_json :: "js_error + jsval"
  resp_text :: "js_error + string"

type_synonym fetch = "request \<Rightarrow> js_error + response"

definition ok :: "response \<Rightarrow> bool" where
  "ok r \<longleftrightarrow> 200 \<le> resp_status r \<and> resp_status r \<le> 299"

text \<open>
  \<open>toUpperCase\<close> and \<open>toLowerCase\<close> on the ASCII letters. They are applied to HTTP methods
  and header names; no other character maps to an ASCII letter, so the comparisons with
  \<open>HEAD\<close>, \<open>DELETE\<close> and \<open>GET\<close> are exact for every string.
\<close>

definition toUpperCase :: "string \<Rightarrow> string" where
  "toUpperCase s =
     map (\<lambda>c. if c \<in> set ''abcdefghijklmnopqrstuvwxyz''
                then char_of (of_char c - (32::nat)) else c) s"

definition toLowerCase :: "string \<Rightarrow> string" where
  "toLowerCase s =
     map (\<lambda>c. if c \<in> set ''ABCDEFGHIJKLMNOPQRSTUVWXYZ''
                then char_of (of_char c + (32::nat)) else c) s"

definition headers_get :: "(string \<times> string) list \<Rightarrow> string \<Rightarrow> string option" where
  "headers_get hs name = map_of hs (toLowerCase name)"

text \<open>\<open>a || b\<close> on header values: an absent or empty first value gives the second.\<close>

definition or_else :: "string option \<Rightarrow> string option \<Rightarrow> string option" where
  "or_else a b = (case a of Some s \<Rightarrow> if s \<noteq> [] then Some s else b | None \<Rightarrow> b)"

record exec_request =
  er_component :: string
  er_method :: "string option"
  er_pathTemplate :: "string option"
  er_pathParams :: "(string \<times> string) list"
  er_queryParams :: "(string \<times> jsval) list"
  er_body :: "jsval option"

definition http_error :: "response \<Rightarrow> jsval \<Rightarrow> string \<Rightarrow> js_error" where
  "http_error r responseBody url =
     \<lparr>err_name = ''Error'',
      err_message = ''Midaz API error: '' @ digits (resp_status r) @ '' '' @ resp_statusText r,
      err_status = Some (resp_status r),
      err_statusText = Some (resp_statusText r),
      err_body = Some responseBody,
      err_url = Some url\<rparr>"

text \<open>
  The body of a response: \<open>response.json()\<close> when the content type names JSON,
  \<open>response.text()\<close> otherwise.
\<close>

definition read_body :: "response \<Rightarrow> js_error + jsval" where
  "read_body r =
     (let contentType = (case or_else (headers_get (resp_headers r) ''content-type'') (Some [])
                           of Some c \<Rightarrow> c | None \<Rightarrow> [])
      in if str_includes contentType ''application/json'' then resp_json r
         else map_sum id JStr (resp_text r))"

definition interpret_response :: "string \<Rightarrow> string \<Rightarrow> response \<Rightarrow> js_error + jsval" where
  "interpret_response method url r =
     (if toUpperCase method = ''HEAD'' then
        Inr (JObj [(''status'', JNum (int (resp_status r))),
                   (''headers'', JObj (map (\<lambda>(k, v). (k, JStr v)) (resp_headers r))),
                   (''count'',
                      case or_else (headers_get (resp_headers r) ''Midaz-Total-Count'')
                                   (headers_get (resp_headers r) ''midaz-total-count'') of
                        Some c \<Rightarrow> JStr c
                      | None \<Rightarrow> JNull)])
      else if toUpperCase method = ''DELETE'' \<and> resp_status r = 204 then
        Inr (JObj [(''status'', JNum 204), (''message'', JStr ''Successfully deleted'')])
      else
        case read_body r of
          Inl e \<Rightarrow> Inl e
        | Inr responseBody \<Rightarrow>
            if \<not> ok r then Inl (http_error r responseBody url) else Inr responseBody)"

definition executeRequest ::
  "midazApi \<Rightarrow> fetch \<Rightarrow> exec_request \<Rightarrow> (js_error + jsval) \<times> request list" where
  "executeRequest api fetch rq =
     (let baseUrl = getComponentUrl api (er_component rq) in
      case buildUrl baseUrl (er_pathTemplate rq) (er_pathParams rq) of
        Inl e \<Rightarrow> (Inl e, [])
      | Inr u \<Rightarrow>
          let url = u @ buildQueryString (er_queryParams rq);
              tmo = (case timeout api of Some t \<Rightarrow> if t \<noteq> 0 then t else 30000 | None \<Rightarrow> 30000);
              headers = [(''Content-Type'', ''application/json''), (''Accept'', ''application/json'')]
                @ (case authToken api of
                     Some tok \<Rightarrow> if tok \<noteq> [] then [(''Authorization'', ''Bearer '' @ tok)] else []
                   | None \<Rightarrow> [])
          in case er_method rq of
               None \<Rightarrow> (Inl (new_error ''TypeError''
                          ''Cannot read properties of undefined (reading 'toUpperCase')''), [])
             | Some method \<Rightarrow>
                 let body = (case er_body rq of
                               Some b \<Rightarrow>
                                 if truthy b \<and> toUpperCase method \<notin> set [''GET'', ''HEAD'', ''DELETE'']
                                 then JSON_stringify b else None
                             | None \<Rightarrow> None);
                     req = \<lparr>req_url = url, req_method = toUpperCase method,
                            req_headers = headers, req_body = body, req_timeout = tmo\<rparr>
                 in case fetch req of
                      Inl e \<Rightarrow> (Inl e, [req])
                    | Inr r \<Rightarrow> (interpret_response method url r, [req]))"

text \<open>
  \<open>checkHealth(component)\<close>: the call and the reading of the response are inside
  \<open>try\<close>; the \<open>catch\<close> turns a rejection into a result.
\<close>

record health =
  h_healthy :: bool
  h_status :: "nat option"
  h_error :: "string option"
  h_component :: string
  h_url :: base_url

definition checkHealth :: "midazApi \<Rightarrow> fetch \<Rightarrow> string \<Rightarrow> (js_error + health) \<times> request list" where
  "checkHealth api fetch component =
     (let baseUrl = getComponentUrl api component;
          req = \<lparr>req_url = base_text baseUrl @ ''/health'', req_method = ''GET'',
                 req_headers = [(''Accept'', ''application/json'')], req_body = None,
                 req_timeout = 5000\<rparr>
      in case fetch req of
           Inr r \<Rightarrow>
             (Inr \<lparr>h_healthy = ok r, h_status = Some (resp_status r), h_error = None,
                   h_component = component, h_url = baseUrl\<rparr>, [req])
         | Inl err \<Rightarrow>
             (Inr \<lparr>h_healthy = False, h_status = None, h_error = Some (err_message err),
                   h_component = component, h_url = baseUrl\<rparr>, [req]))"

section \<open>Schema registry (src/api/schemas)\<close>

text \<open>
  A resource schema and its actions, as the sixteen schema modules declare them. Of an
  action the model keeps what the dispatcher computes with: the HTTP method, the path
  template and the path parameters, each with its \<open>required\<close> flag (\<open>pathParams\<close> is
  absent where the module declares none). The descriptions of actions and parameters, the
  query parameter table, the input tree and the example are documentation that the
  resolver hands through unchanged; they are left out.
\<close>

record action_def =
  ad_method :: string
  ad_path :: string
  ad_pathParams :: "(string \<times> bool) list option"

record resource_schema =
  rs_resource :: string
  rs_component :: string
  rs_description :: string
  rs_actions :: "(string \<times> action_def) list"

definition organizationsSchema :: resource_schema where
  "organizationsSchema =
     \<lparr>rs_resource = ''organizations'', rs_component = ''onboarding'',
      rs_description = ''Top-level entities representing companies or business units in Midaz'',
      rs_actions = [
        (''create'', \<lparr>ad_method = ''POST'',
           ad_path = ''/v1/organizations'',
           ad_pathParams = None\<rparr>),
        (''get'', \<lparr>ad_method = ''GET'',
           ad_path = ''/v1/organizations/:id'',
           ad_pathParams = Some [(''id'', True)]\<rparr>),
        (''list'', \<lparr>ad_method = ''GET'',
           ad_path = ''/v1/organizations'',
           ad_pathParams = None\<rparr>),
        (''update'', \<lparr>ad_method = ''PATCH'',
           ad_path = ''/v1/organizations/:id'',
           ad_pathParams = Some [(''id'', True)]\<rparr>),
        (''delete'', \<lparr>ad_method = ''DELETE'',
           ad_path = ''/v1/organizations/:id'',
           ad_pathParams = Some [(''id'', True)]\<rparr>),
        (''count'', \<lparr>ad_method = ''HEAD'',
           ad_path = ''/v1/organizations/metrics/count'',
           ad_pathParams = None\<rparr>)]\<rparr>"

definition ledgersSchema :: resource_schema where
  "ledgersSchema =
     \<lparr>rs_resource = ''ledgers'', rs_component = ''onboarding'',
      rs_description = ''Organizational units within an organization that group related financial accounts and assets'',
      rs_actions = [
        (''create'', \<lparr>ad_method = ''POST'',
           ad_path = ''/v1/organizations/:organizationId/ledgers'',
           ad_pathParams = Some [(''organizationId'', True)]\<rparr>),
        (''get'', \<lparr>ad_method = ''GET'',
           ad_path = ''/v1/organizations/:organizationId/ledgers/:id'',
           ad_pathParams = Some [(''organizationId'', True), (''id'', True)]\<rparr>),
        (''list'', \<lparr>ad_method = ''GET'',
           ad_path = ''/v1/organizations/:organizationId/ledgers'',
           ad_pathParams = Some [(''organizationId'', True)]\<rparr>),
        (''update'', \<lparr>ad_method = ''PATCH'',
           ad_path = ''/v1/organizations/:organizationId/ledgers/:id'',
           ad_pathParams = Some [(''organizationId'', True), (''id'', True)]\<rparr>),
        (''delete'', \<lparr>ad_method = ''DELETE'',
           ad_path = ''/v1/organizations/:organizationId/ledgers/:id'',
           ad_pathParams = Some [(''organizationId'', True), (''id'', True)]\<rparr>),
        (''count'', \<lparr>ad_method = ''HEAD'',
           ad_path = ''/v1/organizations/:organizationId/ledgers/metrics/count'',
           ad_pathParams = Some [(''organizationId'', True)]\<rparr>)]\<rparr>"

definition assetsSchema :: resource_schema where
  "assetsSchema =
     \<lparr>rs_resource = ''assets'', rs_component = ''onboarding'',
      rs_description = ''Financial instruments within a ledger (currencies, crypto, commodities, etc.)'',
      rs_actions = [
        (''create'', \<lparr>ad_method = ''POST'',
           ad_path = ''/v1/organizations/:organizationId/ledgers/:ledgerId/assets'',
           ad_pathParams = Some [(''organizationId'', True), (''ledgerId'', True)]\<rparr>),
        (''get'', \<lparr>ad_method = ''GET'',
           ad_path = ''/v1/organizations/:organizationId/ledgers/:ledgerId/assets/:id'',
           ad_pathParams = Some [(''organizationId'', True), (''ledgerId'', True), (''id'', True)]\<rparr>),
        (''list'', \<lparr>ad_method = ''GET'',
           ad_path = ''/v1/organizations/:organizationId/ledgers/:ledgerId/assets'',
           ad_pathParams = Some [(''organizationId'', True), (''ledgerId'', True)]\<rparr>),
        (''update'', \<lparr>ad_method = ''PATCH'',
           ad_path = ''/v1/organizations/:organizationId/ledgers/:ledgerId/assets/:id'',
           ad_pathParams = Some [(''organizationId'', True), (''ledgerId'', True), (''id'', True)]\<rparr>),
        (''delete'', \<lparr>ad_method = ''DELETE'',
           ad_path = ''/v1/organizations/:organizationId/ledgers/:ledgerId/assets/:id'',
           ad_pathParams = Some [(''organizationId'', True), (''ledgerId'', True), (''id'', True)]\<rparr>),
        (''count'', \<lparr>ad_method = ''HEAD'',
           ad_path = ''/v1/organizations/:organizationId/ledgers/:ledgerId/assets/metrics/count'',
           ad_pathParams = Some [(''organizationId'', True), (''ledgerId'', True)]\<rparr>)]\<rparr>"

definition portfoliosSchema :: resource_schema where
  "portfoliosSchema =
     \<lparr>rs_resource = ''portfolios'', rs_component = ''onboarding'',
      rs_description = ''Collections of accounts grouped for organizational purposes (business units, departments, etc.)'',
      rs_actions = [
        (''create'', \<lparr>ad_method = ''POST'',
           ad_path = ''/v1/organizations/:organizationId/ledgers/:ledgerId/portfolios'',
           ad_pathParams = Some [(''organizationId'', True), (''ledgerId'', True)]\<rparr>),
        (''get'', \<lparr>ad_method = ''GET'',
           ad_path = ''/v1/organizations/:organizationId/ledgers/:ledgerId/portfolios/:id'',
           ad_pathParams = Some [(''organizationId'', True), (''ledgerId'', True), (''id'', True)]\<rparr>),
        (''list'', \<lparr>ad_method = ''GET'',
           ad_path = ''/v1/organizations/:organizationId/ledgers/:ledgerId/portfolios'',
           ad_pathParams = Some [(''organizationId'', True), (''ledgerId'', True)]\<rparr>),
        (''update'', \<lparr>ad_method = ''PATCH'',
           ad_path = ''/v1/organizations/:organizationId/ledgers/:ledgerId/portfolios/:id'',
           ad_pathParams = Some [(''organizationId'', True), (''ledgerId'', True), (''id'', True)]\<rparr>),
        (''delete'', \<lparr>ad_method = ''DELETE'',
           ad_path = ''/v1/organizations/:organizationId/ledgers/:ledgerId/portfolios/:id'',
           ad_pathParams = Some [(''organizationId'', True), (''ledgerId'', True), (''id'', True)]\<rparr>),
        (''count'', \<lparr>ad_method = ''HEAD'',
           ad_path = ''/v1/organizations/:organizationId/ledgers/:ledgerId/portfolios/metrics/count'',
           ad_pathParams = Some [(''organizationId'', True), (''ledgerId'', True)]\<rparr>)]\<rparr>"

definition segmentsSchema :: resource_schema where
  "segmentsSchema =
     \<lparr>rs_resource = ''segments'', rs_component = ''onboarding'',
      rs_description = ''Logical divisions within a ledger (business areas, product lines, customer categories)'',
      rs_actions = [
        (''create'', \<lparr>ad_method = ''POST'',
           ad_path = ''/v1/organizations/:organizationId/ledgers/:ledgerId/segments'',
           ad_pathParams = Some [(''organizationId'', True), (''ledgerId'', True)]\<rparr>),
        (''get'', \<lparr>ad_method = ''GET'',
           ad_path = ''/v1/organizations/:organizationId/ledgers/:ledgerId/segments/:id'',
           ad_pathParams = Some [(''organizationId'', True), (''ledgerId'', True), (''id'', True)]\<rparr>),
        (''list'', \<lparr>ad_method = ''GET'',
           ad_path = ''/v1/organizations/:organizationId/ledgers/:ledgerId/segments'',
           ad_pathParams = Some [(''organizationId'', True), (''ledgerId'', True)]\<rparr>),
        (''update'', \<lparr>ad_method = ''PATCH'',
           ad_path = ''/v1/organizations/:organizationId/ledgers/:ledgerId/segments/:id'',
           ad_pathParams = Some [(''organizationId'', True), (''ledgerId'', True), (''id'', True)]\<rparr>),
        (''delete'', \<lparr>ad_method = ''DELETE'',
           ad_path = ''/v1/organizations/:organizationId/ledgers/:ledgerId/segments/:id'',
           ad_pathParams = Some [(''organizationId'', True), (''ledgerId'', True), (''id'', True)]\<rparr>),
        (''count'', \<lparr>ad_method = ''HEAD'',
           ad_path = ''/v1/organizations/:organizationId/ledgers/:ledgerId/segments/metrics/count'',
           ad_pathParams = Some [(''organizationId'', True), (''ledgerId'', True)]\<rparr>)]\<rparr>"

definition accountsSchema :: resource_schema where
  "accountsSchema =
     \<lparr>rs_resource = ''accounts'', rs_component = ''onboarding'',
      rs_description = ''Financial accounts within a ledger for tracking balances and transactions'',
      rs_actions = [
        (''create'', \<lparr>ad_method = ''POST'',
           ad_path = ''/v1/organizations/:organizationId/ledgers/:ledgerId/accounts'',
           ad_pathParams = Some [(''organizationId'', True), (''ledgerId'', True)]\<rparr>),
        (''get'', \<lparr>ad_method = ''GET'',
           ad_path = ''/v1/organizations/:organizationId/ledgers/:ledgerId/accounts/:id'',
           ad_pathParams = Some [(''organizationId'', True), (''ledgerId'', True), (''id'', True)]\<rparr>),
        (''getByAlias'', \<lparr>ad_method = ''GET'',
           ad_path = ''/v1/organizations/:organizationId/ledgers/:ledgerId/accounts/aliases/:alias'',
           ad_pathParams = Some [(''organizationId'', True), (''ledgerId'', True), (''alias'', True)]\<rparr>),
        (''getByExternalId'', \<lparr>ad_method = ''GET'',
           ad_path = ''/v1/organizations/:organizationId/ledgers/:ledgerId/accounts/external/:externalId'',
           ad_pathParams = Some [(''organizationId'', True), (''ledgerId'', True), (''externalId'', True)]\<rparr>),
        (''list'', \<lparr>ad_method = ''GET'',
           ad_path = ''/v1/organizations/:organizationId/ledgers/:ledgerId/accounts'',
           ad_pathParams = Some [(''organizationId'', True), (''ledgerId'', True)]\<rparr>),
        (''update'', \<lparr>ad_method = ''PATCH'',
           ad_path = ''/v1/organizations/:organizationId/ledgers/:ledgerId/accounts/:id'',
           ad_pathParams = Some [(''organizationId'', True), (''ledgerId'', True), (''id'', True)]\<rparr>),
        (''delete'', \<lparr>ad_method = ''DELETE'',
           ad_path = ''/v1/organizations/:organizationId/ledgers/:ledgerId/accounts/:id'',
           ad_pathParams = Some [(''organizationId'', True), (''ledgerId'', True), (''id'', True)]\<rparr>),
        (''count'', \<lparr>ad_method = ''HEAD'',
           ad_path = ''/v1/organizations/:organizationId/ledgers/:ledgerId/accounts/metrics/count'',
           ad_pathParams = Some [(''organizationId'', True), (''ledgerId'', True)]\<rparr>)]\<rparr>"

definition accountTypesSchema :: resource_schema where
  "accountTypesSchema =
     \<lparr>rs_resource = ''account-types'', rs_component = ''onboarding'',
      rs_description = ''Custom account type taxonomies with name, description, and unique key value'',
      rs_actions = [
        (''create'', \<lparr>ad_method = ''POST'',
           ad_path = ''/v1/organizations/:organizationId/ledgers/:ledgerId/account-types'',
           ad_pathParams = Some [(''organizationId'', True), (''ledgerId'', True)]\<rparr>),
        (''get'', \<lparr>ad_method = ''GET'',
           ad_path = ''/v1/organizations/:organizationId/ledgers/:ledgerId/account-types/:id'',
           ad_pathParams = Some [(''organizationId'', True), (''ledgerId'', True), (''id'', True)]\<rparr>),
        (''list'', \<lparr>ad_method = ''GET'',
           ad_path = ''/v1/organizations/:organizationId/ledgers/:ledgerId/account-types'',
           ad_pathParams = Some [(''organizationId'', True), (''ledgerId'', True)]\<rparr>),
        (''update'', \<lparr>ad_method = ''PATCH'',
           ad_path = ''/v1/organizations/:organizationId/ledgers/:ledgerId/account-types/:id'',
           ad_pathParams = Some [(''organizationId'', True), (''ledgerId'', True), (''id'', True)]\<rparr>),
        (''delete'', \<lparr>ad_method = ''DELETE'',
           ad_path = ''/v1/organizations/:organizationId/ledgers/:ledgerId/account-types/:id'',
           ad_pathParams = Some [(''organizationId'', True), (''ledgerId'', True), (''id'', True)]\<rparr>)]\<rparr>"

definition transactionsSchema :: resource_schema where
  "transactionsSchema =
     \<lparr>rs_resource = ''transactions'', rs_component = ''transaction'',
      rs_description = ''Financial transactions with double-entry accounting (source/destination operations)'',
      rs_actions = [
        (''create'', \<lparr>ad_method = ''POST'',
           ad_path = ''/v1/organizations/:organizationId/ledgers/:ledgerId/transactions'',
           ad_pathParams = Some [(''organizationId'', True), (''ledgerId'', True)]\<rparr>),
        (''createDSL'', \<lparr>ad_method = ''POST'',
           ad_path = ''/v1/organizations/:organizationId/ledgers/:ledgerId/transactions/dsl'',
           ad_pathParams = Some [(''organizationId'', True), (''ledgerId'', True)]\<rparr>),
        (''createInflow'', \<lparr>ad_method = ''POST'',
           ad_path = ''/v1/organizations/:organizationId/ledgers/:ledgerId/transactions/inflow'',
           ad_pathParams = Some [(''organizationId'', True), (''ledgerId'', True)]\<rparr>),
        (''createOutflow'', \<lparr>ad_method = ''POST'',
           ad_path = ''/v1/organizations/:organizationId/ledgers/:ledgerId/transactions/outflow'',
           ad_pathParams = Some [(''organizationId'', True), (''ledgerId'', True)]\<rparr>),
        (''createAnnotation'', \<lparr>ad_method = ''POST'',
           ad_path = ''/v1/organizations/:organizationId/ledgers/:ledgerId/transactions/annotation'',
           ad_pathParams = Some [(''organizationId'', True), (''ledgerId'', True)]\<rparr>),
        (''commit'', \<lparr>ad_method = ''POST'',
           ad_path = ''/v1/organizations/:organizationId/ledgers/:ledgerId/transactions/:id/commit'',
           ad_pathParams = Some [(''organizationId'', True), (''ledgerId'', True), (''id'', True)]\<rparr>),
        (''cancel'', \<lparr>ad_method = ''POST'',
           ad_path = ''/v1/organizations/:organizationId/ledgers/:ledgerId/transactions/:id/cancel'',
           ad_pathParams = Some [(''organizationId'', True), (''ledgerId'', True), (''id'', True)]\<rparr>),
        (''revert'', \<lparr>ad_method = ''POST'',
           ad_path = ''/v1/organizations/:organizationId/ledgers/:ledgerId/transactions/:id/revert'',
           ad_pathParams = Some [(''organizationId'', True), (''ledgerId'', True), (''id'', True)]\<rparr>),
        (''get'', \<lparr>ad_method = ''GET'',
           ad_path = ''/v1/organizations/:organizationId/ledgers/:ledgerId/transactions/:id'',
           ad_pathParams = Some [(''organizationId'', True), (''ledgerId'', True), (''id'', True)]\<rparr>),
        (''list'', \<lparr>ad_method = ''GET'',
           ad_path = ''/v1/organizations/:organizationId/ledgers/:ledgerId/transactions'',
           ad_pathParams = Some [(''organizationId'', True), (''ledgerId'', True)]\<rparr>),
        (''update'', \<lparr>ad_method = ''PATCH'',
           ad_path = ''/v1/organizations/:organizationId/ledgers/:ledgerId/transactions/:id'',
           ad_pathParams = Some [(''organizationId'', True), (''ledgerId'', True), (''id'', True)]\<rparr>)]\<rparr>"

definition operationsSchema :: resource_schema where
  "operationsSchema =
     \<lparr>rs_resource = ''operations'', rs_component = ''transaction'',
      rs_description = ''Individual debit/credit entries within a transaction affecting account balances'',
      rs_actions = [
        (''getByAccount'', \<lparr>ad_method = ''GET'',
           ad_path = ''/v1/organizations/:organizationId/ledgers/:ledgerId/accounts/:accountId/operations'',
           ad_pathParams = Some [(''organizationId'', True), (''ledgerId'', True), (''accountId'', True)]\<rparr>),
        (''get'', \<lparr>ad_method = ''GET'',
           ad_path = ''/v1/organizations/:organizationId/ledgers/:ledgerId/accounts/:accountId/operations/:id'',
           ad_pathParams = Some [(''organizationId'', True), (''ledgerId'', True), (''accountId'', True), (''id'', True)]\<rparr>),
        (''update'', \<lparr>ad_method = ''PATCH'',
           ad_path = ''/v1/organizations/:organizationId/ledgers/:ledgerId/accounts/:accountId/operations/:id'',
           ad_pathParams = Some [(''organizationId'', True), (''ledgerId'', True), (''accountId'', True), (''id'', True)]\<rparr>)]\<rparr>"

definition balancesSchema :: resource_schema where
  "balancesSchema =
     \<lparr>rs_resource = ''balances'', rs_component = ''transaction'',
      rs_description = ''Account balances tracking available/onHold amounts per asset with multi-key support'',
      rs_actions = [
        (''get'', \<lparr>ad_method = ''GET'',
           ad_path = ''/v1/organizations/:organizationId/ledgers/:ledgerId/accounts/:accountId/balances/:id'',
           ad_pathParams = Some [(''organizationId'', True), (''ledgerId'', True), (''accountId'', True), (''id'', True)]\<rparr>),
        (''getByAccount'', \<lparr>ad_method = ''GET'',
           ad_path = ''/v1/organizations/:organizationId/ledgers/:ledgerId/accounts/:accountId/balances'',
           ad_pathParams = Some [(''organizationId'', True), (''ledgerId'', True), (''accountId'', True)]\<rparr>),
        (''getByAlias'', \<lparr>ad_method = ''GET'',
           ad_path = ''/v1/organizations/:organizationId/ledgers/:ledgerId/balances/aliases/:alias'',
           ad_pathParams = Some [(''organizationId'', True), (''ledgerId'', True), (''alias'', True)]\<rparr>),
        (''getByExternalId'', \<lparr>ad_method = ''GET'',
           ad_path = ''/v1/organizations/:organizationId/ledgers/:ledgerId/balances/external/:externalId'',
           ad_pathParams = Some [(''organizationId'', True), (''ledgerId'', True), (''externalId'', True)]\<rparr>),
        (''list'', \<lparr>ad_method = ''GET'',
           ad_path = ''/v1/organizations/:organizationId/ledgers/:ledgerId/balances'',
           ad_pathParams = Some [(''organizationId'', True), (''ledgerId'', True)]\<rparr>),
        (''createAdditional'', \<lparr>ad_method = ''POST'',
           ad_path = ''/v1/organizations/:organizationId/ledgers/:ledgerId/accounts/:accountId/balances'',
           ad_pathParams = Some [(''organizationId'', True), (''ledgerId'', True), (''accountId'', True)]\<rparr>),
        (''update'', \<lparr>ad_method = ''PATCH'',
           ad_path = ''/v1/organizations/:organizationId/ledgers/:ledgerId/accounts/:accountId/balances/:id'',
           ad_pathParams = Some [(''organizationId'', True), (''ledgerId'', True), (''accountId'', True), (''id'', True)]\<rparr>),
        (''delete'', \<lparr>ad_method = ''DELETE'',
           ad_path = ''/v1/organizations/:organizationId/ledgers/:ledgerId/accounts/:accountId/balances/:id'',
           ad_pathParams = Some [(''organizationId'', True), (''ledgerId'', True), (''accountId'', True), (''id'', True)]\<rparr>)]\<rparr>"

definition assetRatesSchema :: resource_schema where
  "assetRatesSchema =
     \<lparr>rs_resource = ''asset-rates'', rs_component = ''transaction'',
      rs_description = ''Currency/asset conversion rates for cross-asset transactions'',
      rs_actions = [
        (''createOrUpdate'', \<lparr>ad_method = ''PUT'',
           ad_path = ''/v1/organizations/:organizationId/ledgers/:ledgerId/asset-rates'',
           ad_pathParams = Some [(''organizationId'', True), (''ledgerId'', True)]\<rparr>),
        (''getByExternalId'', \<lparr>ad_method = ''GET'',
           ad_path = ''/v1/organizations/:organizationId/ledgers/:ledgerId/asset-rates/external/:externalId'',
           ad_pathParams = Some [(''organizationId'', True), (''ledgerId'', True), (''externalId'', True)]\<rparr>),
        (''getByAssetCode'', \<lparr>ad_method = ''GET'',
           ad_path = ''/v1/organizations/:organizationId/ledgers/:ledgerId/asset-rates/:assetCode'',
           ad_pathParams = Some [(''organizationId'', True), (''ledgerId'', True), (''assetCode'', True)]\<rparr>)]\<rparr>"

definition operationRoutesSchema :: resource_schema where
  "operationRoutesSchema =
     \<lparr>rs_resource = ''operation-routes'', rs_component = ''transaction'',
      rs_description = ''Rule-based routing for operations with account selection rules (alias or account_type matching)'',
      rs_actions = [
        (''create'', \<lparr>ad_method = ''POST'',
           ad_path = ''/v1/organizations/:organizationId/ledgers/:ledgerId/operation-routes'',
           ad_pathParams = Some [(''organizationId'', True), (''ledgerId'', True)]\<rparr>),
        (''get'', \<lparr>ad_method = ''GET'',
           ad_path = ''/v1/organizations/:organizationId/ledgers/:ledgerId/operation-routes/:id'',
           ad_pathParams = Some [(''organizationId'', True), (''ledgerId'', True), (''id'', True)]\<rparr>),
        (''list'', \<lparr>ad_method = ''GET'',
           ad_path = ''/v1/organizations/:organizationId/ledgers/:ledgerId/operation-routes'',
           ad_pathParams = Some [(''organizationId'', True), (''ledgerId'', True)]\<rparr>),
        (''update'', \<lparr>ad_method = ''PATCH'',
           ad_path = ''/v1/organizations/:organizationId/ledgers/:ledgerId/operation-routes/:id'',
           ad_pathParams = Some [(''organizationId'', True), (''ledgerId'', True), (''id'', True)]\<rparr>),
        (''delete'', \<lparr>ad_method = ''DELETE'',
           ad_path = ''/v1/organizations/:organizationId/ledgers/:ledgerId/operation-routes/:id'',
           ad_pathParams = Some [(''organizationId'', True), (''ledgerId'', True), (''id'', True)]\<rparr>)]\<rparr>"

definition transactionRoutesSchema :: resource_schema where
  "transactionRoutesSchema =
     \<lparr>rs_resource = ''transaction-routes'', rs_component = ''transaction'',
      rs_description = ''Composite routing that combines multiple operation routes for transaction processing'',
      rs_actions = [
        (''create'', \<lparr>ad_method = ''POST'',
           ad_path = ''/v1/organizations/:organizationId/ledgers/:ledgerId/transaction-routes'',
           ad_pathParams = Some [(''organizationId'', True), (''ledgerId'', True)]\<rparr>),
        (''get'', \<lparr>ad_method = ''GET'',
           ad_path = ''/v1/organizations/:organizationId/ledgers/:ledgerId/transaction-routes/:id'',
           ad_pathParams = Some [(''organizationId'', True), (''ledgerId'', True), (''id'', True)]\<rparr>),
        (''list'', \<lparr>ad_method = ''GET'',
           ad_path = ''/v1/organizations/:organizationId/ledgers/:ledgerId/transaction-routes'',
           ad_pathParams = Some [(''organizationId'', True), (''ledgerId'', True)]\<rparr>),
        (''update'', \<lparr>ad_method = ''PATCH'',
           ad_path = ''/v1/organizations/:organizationId/ledgers/:ledgerId/transaction-routes/:id'',
           ad_pathParams = Some [(''organizationId'', True), (''ledgerId'', True), (''id'', True)]\<rparr>),
        (''delete'', \<lparr>ad_method = ''DELETE'',
           ad_path = ''/v1/organizations/:organizationId/ledgers/:ledgerId/transaction-routes/:id'',
           ad_pathParams = Some [(''organizationId'', True), (''ledgerId'', True), (''id'', True)]\<rparr>)]\<rparr>"

definition metadataIndexesSchema :: resource_schema where
  "metadataIndexesSchema =
     \<lparr>rs_resource = ''metadata-indexes'', rs_component = ''ledger'',
      rs_description = ''MongoDB indexes on custom metadata fields for optimized querying (supports transaction, operation, operation_route, transaction_route entities)'',
      rs_actions = [
        (''create'', \<lparr>ad_method = ''POST'',
           ad_path = ''/v1/organizations/:organizationId/ledgers/:ledgerId/metadata-indexes/:entityName'',
           ad_pathParams = Some [(''organizationId'', True), (''ledgerId'', True), (''entityName'', True)]\<rparr>),
        (''list'', \<lparr>ad_method = ''GET'',
           ad_path = ''/v1/organizations/:organizationId/ledgers/:ledgerId/metadata-indexes'',
           ad_pathParams = Some [(''organizationId'', True), (''ledgerId'', True)]\<rparr>),
        (''delete'', \<lparr>ad_method = ''DELETE'',
           ad_path = ''/v1/organizations/:organizationId/ledgers/:ledgerId/metadata-indexes/:entityName/:metadataKey'',
           ad_pathParams = Some [(''organizationId'', True), (''ledgerId'', True), (''entityName'', True), (''metadataKey'', True)]\<rparr>)]\<rparr>"

definition holdersSchema :: resource_schema where
  "holdersSchema =
     \<lparr>rs_resource = ''holders'', rs_component = ''crm'',
      rs_description = ''Customer/entity management - natural persons or legal persons with addresses, contacts, and documents'',
      rs_actions = [
        (''create'', \<lparr>ad_method = ''POST'',
           ad_path = ''/v1/organizations/:organizationId/ledgers/:ledgerId/holders'',
           ad_pathParams = Some [(''organizationId'', True), (''ledgerId'', True)]\<rparr>),
        (''get'', \<lparr>ad_method = ''GET'',
           ad_path = ''/v1/organizations/:organizationId/ledgers/:ledgerId/holders/:id'',
           ad_pathParams = Some [(''organizationId'', True), (''ledgerId'', True), (''id'', True)]\<rparr>),
        (''list'', \<lparr>ad_method = ''GET'',
           ad_path = ''/v1/organizations/:organizationId/ledgers/:ledgerId/holders'',
           ad_pathParams = Some [(''organizationId'', True), (''ledgerId'', True)]\<rparr>),
        (''update'', \<lparr>ad_method = ''PATCH'',
           ad_path = ''/v1/organizations/:organizationId/ledgers/:ledgerId/holders/:id'',
           ad_pathParams = Some [(''organizationId'', True), (''ledgerId'', True), (''id'', True)]\<rparr>),
        (''delete'', \<lparr>ad_method = ''DELETE'',
           ad_path = ''/v1/organizations/:organizationId/ledgers/:ledgerId/holders/:id'',
           ad_pathParams = Some [(''organizationId'', True), (''ledgerId'', True), (''id'', True)]\<rparr>)]\<rparr>"

definition aliasesSchema :: resource_schema where
  "aliasesSchema =
     \<lparr>rs_resource = ''aliases'', rs_component = ''crm'',
      rs_description = ''Banking aliases for holders with banking details, regulatory fields, and related parties'',
      rs_actions = [
        (''create'', \<lparr>ad_method = ''POST'',
           ad_path = ''/v1/organizations/:organizationId/ledgers/:ledgerId/holders/:holderId/aliases'',
           ad_pathParams = Some [(''organizationId'', True), (''ledgerId'', True), (''holderId'', True)]\<rparr>),
        (''get'', \<lparr>ad_method = ''GET'',
           ad_path = ''/v1/organizations/:organizationId/ledgers/:ledgerId/holders/:holderId/aliases/:id'',
           ad_pathParams = Some [(''organizationId'', True), (''ledgerId'', True), (''holderId'', True), (''id'', True)]\<rparr>),
        (''listByHolder'', \<lparr>ad_method = ''GET'',
           ad_path = ''/v1/organizations/:organizationId/ledgers/:ledgerId/holders/:holderId/aliases'',
           ad_pathParams = Some [(''organizationId'', True), (''ledgerId'', True), (''holderId'', True)]\<rparr>),
        (''listAll'', \<lparr>ad_method = ''GET'',
           ad_path = ''/v1/organizations/:organizationId/ledgers/:ledgerId/aliases'',
           ad_pathParams = Some [(''organizationId'', True), (''ledgerId'', True)]\<rparr>),
        (''update'', \<lparr>ad_method = ''PATCH'',
           ad_path = ''/v1/organizations/:organizationId/ledgers/:ledgerId/holders/:holderId/aliases/:id'',
           ad_pathParams = Some [(''organizationId'', True), (''ledgerId'', True), (''holderId'', True), (''id'', True)]\<rparr>),
        (''delete'', \<lparr>ad_method = ''DELETE'',
           ad_path = ''/v1/organizations/:organizationId/ledgers/:ledgerId/holders/:holderId/aliases/:id'',
           ad_pathParams = Some [(''organizationId'', True), (''ledgerId'', True), (''holderId'', True), (''id'', True)]\<rparr>),
        (''deleteRelatedParty'', \<lparr>ad_method = ''DELETE'',
           ad_path = ''/v1/organizations/:organizationId/ledgers/:ledgerId/holders/:holderId/aliases/:id/related-parties/:partyId'',
           ad_pathParams = Some [(''organizationId'', True), (''ledgerId'', True), (''holderId'', True), (''id'', True), (''partyId'', True)]\<rparr>)]\<rparr>"

definition allSchemas :: "resource_schema list" where
  "allSchemas =
     [organizationsSchema, ledgersSchema, assetsSchema, portfoliosSchema, segmentsSchema,
      accountsSchema, accountTypesSchema, transactionsSchema, operationsSchema,
      balancesSchema, assetRatesSchema, operationRoutesSchema, transactionRoutesSchema,
      metadataIndexesSchema, holdersSchema, aliasesSchema]"

text \<open>\<open>schemaMap\<close>: the \<open>Map\<close> filled by the loop over \<open>allSchemas\<close>.\<close>

definition schemaMap_set ::
  "(string \<Rightarrow> resource_schema option) \<Rightarrow> resource_schema \<Rightarrow> (string \<Rightarrow> resource_schema option)" where
  "schemaMap_set m schema = m(rs_resource schema \<mapsto> schema)"

definition schemaMap :: "string \<Rightarrow> resource_schema option" where
  "schemaMap = foldl schemaMap_set Map.empty allSchemas"

definition getSchema :: "string \<Rightarrow> resource_schema option" where
  "getSchema resource = schemaMap resource"

definition getAllSchemas :: "resource_schema list" where
  "getAllSchemas = allSchemas"

definition listResources :: "(string \<times> string \<times> string \<times> string list) list" where
  "listResources =
     map (\<lambda>s. (rs_resource s, rs_component s, rs_description s, map fst (rs_actions s)))
       allSchemas"

section \<open>Action resolver and dispatch (src/api/router.js)\<close>

text \<open>
  \<open>resolveAction\<close> returns an object with an \<open>error\<close> text or the descriptor.
  \<open>schema.actions[action]\<close> is a property read on an object literal: it finds the
  declared action or an inherited member; of the latter \<open>method\<close> and \<open>path\<close> are
  undefined and \<open>pathParams\<close> defaults to the empty object.
\<close>

record descriptor =
  d_resource :: string
  d_action :: string
  d_component :: string
  d_method :: "string option"
  d_pathTemplate :: "string option"
  d_pathParams :: "(string \<times> bool) list"

datatype resolution = ResolveError string | Resolved descriptor

definition quoted :: "string \<Rightarrow> string" where
  "quoted s = CHR 0x22 # s @ [CHR 0x22]"

definition resolveAction :: "string \<Rightarrow> string \<Rightarrow> resolution" where
  "resolveAction resource action =
     (case getSchema resource of
        None \<Rightarrow>
          ResolveError (''Unknown resource '' @ quoted resource
            @ ''. Use midaz-discover to list available resources.'')
      | Some schema \<Rightarrow>
          (case get_property (rs_actions schema) action of
             Absent \<Rightarrow>
               ResolveError (''Unknown action '' @ quoted action @ '' for resource ''
                 @ quoted resource @ ''. Available actions: ''
                 @ join '', '' (map fst (rs_actions schema)))
           | Own actionDef \<Rightarrow>
               Resolved \<lparr>d_resource = resource, d_action = action,
                 d_component = rs_component schema,
                 d_method = Some (ad_method actionDef),
                 d_pathTemplate = Some (ad_path actionDef),
                 d_pathParams = (case ad_pathParams actionDef of Some ps \<Rightarrow> ps | None \<Rightarrow> [])\<rparr>
           | Inherited m \<Rightarrow>
               Resolved \<lparr>d_resource = resource, d_action = action,
                 d_component = rs_component schema,
                 d_method = None, d_pathTemplate = None, d_pathParams = []\<rparr>))"

text \<open>
  \<open>routeAndExecute\<close>. \<open>!pathParams || !pathParams[paramName]\<close>: the parameter counts as
  supplied when the caller's object has a non-empty string under the name.
\<close>

record route_args =
  ra_resource :: string
  ra_action :: string
  ra_pathParams :: "(string \<times> string) list option"
  ra_queryParams :: "(string \<times> jsval) list option"
  ra_body :: "jsval option"

definition supplied :: "(string \<times> string) list option \<Rightarrow> string \<Rightarrow> bool" where
  "supplied pathParams paramName =
     (case pathParams of
        None \<Rightarrow> False
      | Some pp \<Rightarrow>
          (case get_property pp paramName of
             Own v \<Rightarrow> v \<noteq> []
           | Inherited m \<Rightarrow> True
           | Absent \<Rightarrow> False))"

definition missingParams ::
  "(string \<times> bool) list \<Rightarrow> (string \<times> string) list option \<Rightarrow> string list" where
  "missingParams declared pathParams =
     map fst (filter (\<lambda>(paramName, required). required \<and> \<not> supplied pathParams paramName)
       declared)"

definition routeAndExecute ::
  "midazApi \<Rightarrow> fetch \<Rightarrow> route_args \<Rightarrow> (js_error + jsval) \<times> request list" where
  "routeAndExecute api fetch args =
     (case resolveAction (ra_resource args) (ra_action args) of
        ResolveError e \<Rightarrow> (Inl (new_error ''Error'' e), [])
      | Resolved resolved \<Rightarrow>
          let missing = missingParams (d_pathParams resolved) (ra_pathParams args) in
          if missing \<noteq> [] then
            (Inl (new_error ''Error''
               (''Missing required path parameters: '' @ join '', '' missing)), [])
          else
            executeRequest api fetch
              \<lparr>er_component = d_component resolved,
               er_method = d_method resolved,
               er_pathTemplate = d_pathTemplate resolved,
               er_pathParams = (case ra_pathParams args of Some pp \<Rightarrow> pp | None \<Rightarrow> []),
               er_queryParams = (case ra_queryParams args of Some qp \<Rightarrow> qp | None \<Rightarrow> []),
               er_body = (case ra_body args of
                            Some b \<Rightarrow> if truthy b then Some b else None
                          | None \<Rightarrow> None)\<rparr>)"

text \<open>\<open>getEndpointCount\<close>: the loop that adds \<open>Object.keys(schema.actions).length\<close>.\<close>

fun count_loop :: "nat \<Rightarrow> resource_schema list \<Rightarrow> nat" where
  "count_loop count [] = count"
| "count_loop count (schema # rest) = count_loop (count + length (rs_actions schema)) rest"

definition getEndpointCount :: nat where
  "getEndpointCount = count_loop 0 getAllSchemas"

section \<open>The execute and discover tools (src/tools)\<close>

text \<open>
  The tool handlers answer through \<open>createToolResponse(payload)\<close> and
  \<open>createErrorResponse(code, message, detail)\<close> of the MCP helper module; the model
  records the call: the payload, or the error code with its message and detail.
\<close>

datatype error_code =
    INVALID_PARAMS
  | RESOURCE_NOT_FOUND
  | RESOURCE_ACCESS_DENIED
  | BACKEND_ERROR
  | RESOURCE_UNAVAILABLE
  | INTERNAL_ERROR

datatype tool_result =
    ToolResponse jsval
  | ErrorResponse error_code string "jsval option"

record execute_args =
  ea_resource :: "string option"
  ea_action :: "string option"
  ea_pathParams :: "(string \<times> string) list option"
  ea_queryParams :: "(string \<times> jsval) list option"
  ea_body :: "jsval option"

definition json_of :: "jsval option \<Rightarrow> string" where
  "json_of b = text_or_undefined (case b of None \<Rightarrow> None | Some v \<Rightarrow> JSON_stringify v)"

definition opt_str :: "string option \<Rightarrow> jsval" where
  "opt_str v = (case v of None \<Rightarrow> JUndefined | Some s \<Rightarrow> JStr s)"

text \<open>
  The \<open>catch\<close> block of \<open>handleExecute\<close>: first the branch \<open>if (err.status)\<close> for a
  failure that carries an HTTP status, then the failure shapes.
\<close>

definition classify_status :: "nat \<Rightarrow> js_error \<Rightarrow> tool_result" where
  "classify_status status err =
     (let errorDetail = Some (JObj [(''status'', JNum (int status)),
            (''statusText'', opt_str (err_statusText err)),
            (''url'', opt_str (err_url err)),
            (''body'', (case err_body err of None \<Rightarrow> JUndefined | Some b \<Rightarrow> b))])
      in if status = 400 then
           ErrorResponse INVALID_PARAMS (''Bad request: '' @ json_of (err_body err)) errorDetail
         else if status = 401 \<or> status = 403 then
           ErrorResponse RESOURCE_ACCESS_DENIED
             (''Authentication/authorization error ('' @ digits status
                @ ''). Check MIDAZ_AUTH_TOKEN configuration.'') errorDetail
         else if status = 404 then
           ErrorResponse RESOURCE_NOT_FOUND
             (''Resource not found: '' @ text_or_undefined (err_url err)) errorDetail
         else if status = 409 then
           ErrorResponse BACKEND_ERROR (''Conflict: '' @ json_of (err_body err)) errorDetail
         else if status \<ge> 500 then
           ErrorResponse BACKEND_ERROR
             (''Midaz server error ('' @ digits status @ ''): '' @ json_of (err_body err))
             errorDetail
         else
           ErrorResponse BACKEND_ERROR
             (''API error ('' @ digits status @ ''): '' @ err_message err) errorDetail)"

definition timeout_message :: string where
  "timeout_message =
     ''Request timed out. Check if the Midaz service is running and MIDAZ_*_URL is configured correctly.''"

definition unavailable_message :: string where
  "unavailable_message =
     ''Cannot connect to Midaz API. Ensure the service is running and environment variables MIDAZ_ONBOARDING_URL, MIDAZ_TRANSACTION_URL, MIDAZ_CRM_URL, MIDAZ_LEDGER_URL are set correctly.''"

definition classify :: "js_error \<Rightarrow> tool_result" where
  "classify err =
     (case (case err_status err of Some n \<Rightarrow> if n \<noteq> 0 then Some n else None | None \<Rightarrow> None) of
        Some status \<Rightarrow> classify_status status err
      | None \<Rightarrow>
          if err_name err = ''TimeoutError'' \<or> str_includes (err_message err) ''timeout'' then
            ErrorResponse BACKEND_ERROR timeout_message None
          else if str_includes (err_message err) ''fetch failed''
                  \<or> str_includes (err_message err) ''ECONNREFUSED'' then
            ErrorResponse RESOURCE_UNAVAILABLE unavailable_message None
          else ErrorResponse INTERNAL_ERROR (err_message err) None)"

text \<open>
  \<open>handleExecute\<close>: \<open>!resource || !action\<close> rejects an absent or empty name; the object
  handed to \<open>routeAndExecute\<close> carries \<open>pathParams || {}\<close>, \<open>queryParams || {}\<close> and
  \<open>body || undefined\<close>.
\<close>

definition required_message :: string where
  "required_message =
     ''Both resource and action are required. Use midaz-discover first to find available resources and actions.''"

definition execute_route_args :: "string \<Rightarrow> string \<Rightarrow> execute_args \<Rightarrow> route_args" where
  "execute_route_args resource action args =
     \<lparr>ra_resource = resource, ra_action = action,
      ra_pathParams = Some (case ea_pathParams args of Some pp \<Rightarrow> pp | None \<Rightarrow> []),
      ra_queryParams = Some (case ea_queryParams args of Some qp \<Rightarrow> qp | None \<Rightarrow> []),
      ra_body = (case ea_body args of
                   Some b \<Rightarrow> if truthy b then Some b else None
                 | None \<Rightarrow> None)\<rparr>"

definition handleExecute ::
  "midazApi \<Rightarrow> fetch \<Rightarrow> execute_args \<Rightarrow> tool_result \<times> request list" where
  "handleExecute api fetch args =
     (case (ea_resource args, ea_action args) of
        (Some resource, Some action) \<Rightarrow>
          if resource = [] \<or> action = [] then
            (ErrorResponse INVALID_PARAMS required_message None, [])
          else
            (case routeAndExecute api fetch (execute_route_args resource action args) of
               (Inr result, calls) \<Rightarrow> (ToolResponse result, calls)
             | (Inl err, calls) \<Rightarrow> (classify err, calls))
      | _ \<Rightarrow> (ErrorResponse INVALID_PARAMS required_message None, []))"

text \<open>
  \<open>handleDiscover\<close>, intent \<open>list-resources\<close>: the payload handed to
  \<open>createToolResponse\<close>. A resource is listed under its component with its action names
  and its description.
\<close>

record list_resources =
  lr_totalResources :: nat
  lr_totalEndpoints :: nat
  lr_onboarding :: "(string \<times> string list \<times> string) list"
  lr_transaction :: "(string \<times> string list \<times> string) list"
  lr_crm :: "(string \<times> string list \<times> string) list"
  lr_ledger :: "(string \<times> string list \<times> string) list"
  lr_hint :: string

definition by_component ::
  "(string \<times> string \<times> string \<times> string list) list \<Rightarrow> string
     \<Rightarrow> (string \<times> string list \<times> string) list" where
  "by_component resources c =
     map (\<lambda>(resource, component, description, actions). (resource, actions, description))
       (filter (\<lambda>(resource, component, description, actions). component = c) resources)"

definition handleDiscover_list_resources :: list_resources where
  "handleDiscover_list_resources =
     (let resources = listResources;
          totalEndpoints = getEndpointCount
      in \<lparr>lr_totalResources = length resources,
          lr_totalEndpoints = totalEndpoints,
          lr_onboarding = by_component resources ''onboarding'',
          lr_transaction = by_component resources ''transaction'',
          lr_crm = by_component resources ''crm'',
          lr_ledger = by_component resources ''ledger'',
          lr_hint = ''Use intent='' @ quoted ''describe-resource''
            @ '' with a resource name to see its actions, or intent='' @ quoted ''describe-action''
            @ '' with resource+action for the full input schema.''\<rparr>)"

section \<open>The specification's notions\<close>

text \<open>
  The placeholders of a path template, as the specification speaks of them: a colon
  followed by a name, the longest run of letters, digits and underscores.
\<close>

definition name_char :: "char \<Rightarrow> bool" where
  "name_char c \<longleftrightarrow> alnum c \<or> c = CHR ''_''"

fun path_tokens :: "string \<Rightarrow> string list" where
  "path_tokens [] = []"
| "path_tokens (c # cs) =
     (if c = CHR '':'' \<and> takeWhile name_char cs \<noteq> []
      then takeWhile name_char cs # path_tokens cs
      else path_tokens cs)"

text \<open>
  The specification's invariant on a descriptor: the method is one of six verbs and the
  placeholders of the path are exactly the keys of \<open>pathParams\<close> (none when the schema
  declares no \<open>pathParams\<close>). A schema is well formed when its action names are distinct,
  as the keys of an object literal are, and each of its actions keeps the invariant.
\<close>

definition http_methods :: "string list" where
  "http_methods = [''GET'', ''POST'', ''PUT'', ''PATCH'', ''DELETE'', ''HEAD'']"

definition declared_params :: "action_def \<Rightarrow> (string \<times> bool) list" where
  "declared_params actionDef = (case ad_pathParams actionDef of Some ps \<Rightarrow> ps | None \<Rightarrow> [])"

definition well_formed_action :: "action_def \<Rightarrow> bool" where
  "well_formed_action actionDef \<longleftrightarrow>
     ad_method actionDef \<in> set http_methods
     \<and> set (path_tokens (ad_path actionDef)) = set (map fst (declared_params actionDef))"

definition well_formed_schema :: "resource_schema \<Rightarrow> bool" where
  "well_formed_schema schema \<longleftrightarrow>
     distinct (map fst (rs_actions schema))
     \<and> list_all (\<lambda>(action, actionDef). well_formed_action actionDef) (rs_actions schema)"

text \<open>
  The query string as the specification words it: the entries that are neither undefined
  nor null, in order, each \<open>name=value\<close> with the value's JSON text for an object or an
  array and its plain text for a scalar, joined by \<open>&\<close> after a question mark; the empty
  string when no entry remains.
\<close>

definition is_object :: "jsval \<Rightarrow> bool" where
  "is_object v = (case v of JArr xs \<Rightarrow> True | JObj kvs \<Rightarrow> True | _ \<Rightarrow> False)"

definition scalar_text :: "jsval \<Rightarrow> string" where
  "scalar_text v =
     (case v of
        JBool b \<Rightarrow> if b then ''true'' else ''false''
      | JNum n \<Rightarrow> number_text n
      | JOtherNum t \<Rightarrow> t
      | JStr s \<Rightarrow> s
      | _ \<Rightarrow> [])"

definition entry_text :: "jsval \<Rightarrow> string" where
  "entry_text v = (if is_object v then text_or_undefined (JSON_stringify v) else scalar_text v)"

definition buildQueryString_spec :: "(string \<times> jsval) list \<Rightarrow> string" where
  "buildQueryString_spec queryParams =
     (let remaining = filter (\<lambda>(k, v). v \<noteq> JUndefined \<and> v \<noteq> JNull) queryParams
      in if remaining = [] then []
         else CHR ''?'' # join ''&''
           (map (\<lambda>(k, v). form_encode k @ ''='' @ form_encode (entry_text v)) remaining))"

section \<open>Worked inputs\<close>

text \<open>
  A configuration with two backends, and the calls used where a statement is shown at a
  concrete input: reading one organization, counting organizations (a \<open>HEAD\<close> request)
  and listing them through the execute tool; a backend that answers 404 with a JSON body.
\<close>

definition local_api :: midazApi where
  "local_api = \<lparr>onboardingUrl = Some ''http://localhost:3000'',
     transactionUrl = Some ''http://localhost:3001'', crmUrl = None, ledgerUrl = None,
     timeout = None, authToken = None\<rparr>"

definition get_organization :: exec_request where
  "get_organization = \<lparr>er_component = ''onboarding'', er_method = Some ''GET'',
     er_pathTemplate = Some ''/v1/organizations/:id'', er_pathParams = [(''id'', ''42'')],
     er_queryParams = [], er_body = None\<rparr>"

definition count_organizations :: exec_request where
  "count_organizations = \<lparr>er_component = ''onboarding'', er_method = Some ''HEAD'',
     er_pathTemplate = Some ''/v1/organizations/metrics/count'', er_pathParams = [],
     er_queryParams = [], er_body = None\<rparr>"

definition json_headers :: "(string \<times> string) list" where
  "json_headers = [(''Content-Type'', ''application/json''), (''Accept'', ''application/json'')]"

definition not_found :: response where
  "not_found = \<lparr>resp_status = 404, resp_statusText = ''Not Found'',
     resp_headers = [(''content-type'', ''application/json'')],
     resp_json = Inr (JObj [(''code'', JStr ''0007'')]), resp_text = Inr []\<rparr>"

definition list_organizations :: execute_args where
  "list_organizations = \<lparr>ea_resource = Some ''organizations'', ea_action = Some ''list'',
     ea_pathParams = None, ea_queryParams = Some [(''limit'', JNum 10)], ea_body = None\<rparr>"

definition list_request :: request where
  "list_request = \<lparr>req_url = ''http://localhost:3000/v1/organizations?limit=10'',
     req_method = ''GET'', req_headers = json_headers, req_body = None, req_timeout = 30000\<rparr>"

text \<open>
  The rejections of \<open>fetch\<close> in Node.js: an expired \<open>AbortSignal.timeout\<close> rejects with a
  \<open>TimeoutError\<close>; a refused connection and a failed DNS lookup reject with a
  \<open>TypeError\<close> whose message is \<open>fetch failed\<close>.
\<close>

definition timeout_failure :: js_error where
  "timeout_failure = new_error ''TimeoutError'' ''The operation was aborted due to timeout''"

definition connection_failure :: js_error where
  "connection_failure = new_error ''TypeError'' ''fetch failed''"

section \<open>String replacement\<close>

text \<open>
  The search finds the first occurrence: what it returns splits the string around the
  pattern, and an occurrence with no earlier one (the pattern does not occur in the text
  before it extended by the pattern less its last character) is the one found.
\<close>

lemma split_first_sound:
  "split_first pat s = Some (pre, post) \<Longrightarrow> s = pre @ pat @ post"
proof (induction s arbitrary: pre)
  case Nil then show ?case by (auto split: if_splits)
next
  case (Cons c cs)
  show ?case
  proof (cases "take (length pat) (c # cs) = pat")
    case True
    with Cons.prems have "pre = []" "post = drop (length pat) (c # cs)" by auto
    with True show ?thesis by (metis append_Nil append_take_drop_id)
  next
    case False
    with Cons.prems obtain pre' where "split_first pat cs = Some (pre', post)" "pre = c # pre'"
      by auto
    with Cons.IH show ?thesis by auto
  qed
qed










section \<open>Request builder: path substitution\<close>








section \<open>Request builder: query string\<close>

lemma usp_set_fresh: "k \<notin> fst ` set ps \<Longrightarrow> usp_set ps k v = ps @ [(k, v)]"
  by (induction ps) auto

lemma query_value_cases:
  "query_value v = (if v \<noteq> JUndefined \<and> v \<noteq> JNull then Some (entry_text v) else None)"
  by (cases v) (simp_all add: query_value_def entry_text_def is_object_def scalar_text_def)

lemma query_params_distinct:
  "distinct (map fst qp) \<Longrightarrow> fst ` set acc \<inter> fst ` set qp = {} \<Longrightarrow>
   query_params acc qp
     = acc @ map (\<lambda>(k, v). (k, entry_text v)) (filter (\<lambda>(k, v). v \<noteq> JUndefined \<and> v \<noteq> JNull) qp)"
proof (induction qp arbitrary: acc)
  case Nil
  then show ?case by simp
next
  case (Cons e qp)
  obtain k v where e: "e = (k, v)" by (cases e)
  show ?case
  proof (cases "v \<noteq> JUndefined \<and> v \<noteq> JNull")
    case True
    have fresh: "k \<notin> fst ` set acc" using Cons.prems(2) e by auto
    have d: "distinct (map fst qp)" using Cons.prems(1) by simp
    have disj: "fst ` set (acc @ [(k, entry_text v)]) \<inter> fst ` set qp = {}"
      using Cons.prems e by auto
    from Cons.IH [OF d disj] True fresh show ?thesis
      by (simp add: e query_value_cases usp_set_fresh)
  next
    case False
    have d: "distinct (map fst qp)" using Cons.prems(1) by simp
    have disj: "fst ` set acc \<inter> fst ` set qp = {}" using Cons.prems(2) by auto
    from False have none: "query_value v = None" by (simp add: query_value_cases)
    from False have skip: "filter (\<lambda>(k, v). v \<noteq> JUndefined \<and> v \<noteq> JNull) (e # qp)
        = filter (\<lambda>(k, v). v \<noteq> JUndefined \<and> v \<noteq> JNull) qp"
      by (auto simp: e)
    show ?thesis unfolding skip using Cons.IH [OF d disj] by (simp add: e none)
  qed
qed

lemma join_nonempty: "xs \<noteq> [] \<Longrightarrow> \<forall>x \<in> set xs. x \<noteq> [] \<Longrightarrow> join sep xs \<noteq> []"
  by (induction sep xs rule: join.induct) auto

lemma usp_toString_empty: "usp_toString ps = [] \<longleftrightarrow> ps = []"
proof
  assume "usp_toString ps = []"
  show "ps = []"
  proof (rule ccontr)
    assume "ps \<noteq> []"
    then have "join ''&'' (map (\<lambda>(k, v). form_encode k @ ''='' @ form_encode v) ps) \<noteq> []"
      by (intro join_nonempty) auto
    with \<open>usp_toString ps = []\<close> show False by (simp add: usp_toString_def)
  qed
next
  assume "ps = []" then show "usp_toString ps = []" by (simp add: usp_toString_def)
qed

text \<open>
  Claim C6. For every \<open>queryParams\<close> object, \<open>buildQueryString\<close> is the query string as
  the specification words it: entries whose value is undefined or null are omitted, an
  object or array value is serialized as JSON text and then encoded, a scalar value is
  encoded from its plain text, and the result is empty when no entry remains. The
  encoding is the one of \<open>URLSearchParams\<close> (percent escapes, a space as \<open>+\<close>). The two
  hypotheses say that the list is an object: its keys are distinct, and each number in it,
  at any depth, is a safe integer or is carried with the text the runtime prints for it;
  so a fraction and a magnitude from \<open>10^21\<close> on are covered, with their own texts. In
  particular \<open>buildQueryString({limit: 10})\<close> is \<open>?limit=10\<close>, \<open>buildQueryString({})\<close> is
  empty, \<open>{filter: {a: 1}}\<close> gives the percent-encoded JSON text, \<open>{limit: 1.5}\<close> gives
  \<open>?limit=1.5\<close> and \<open>{limit: 1e21}\<close> gives \<open>?limit=1e%2B21\<close>.
\<close>

theorem buildQueryString_refines_spec:
  "(distinct (map fst queryParams) \<and> representable_members queryParams \<longrightarrow>
      buildQueryString queryParams = buildQueryString_spec queryParams)
   \<and> buildQueryString [(''limit'', JNum 10)] = ''?limit=10''
   \<and> buildQueryString [] = []
   \<and> buildQueryString [(''filter'', JObj [(''a'', JNum 1)])] = ''?filter=%7B%22a%22%3A1%7D''
   \<and> buildQueryString [(''limit'', JOtherNum ''1.5'')] = ''?limit=1.5''
   \<and> buildQueryString [(''limit'', JOtherNum ''1e+21'')] = ''?limit=1e%2B21''"
proof (intro conjI impI)
  assume "distinct (map fst queryParams) \<and> representable_members queryParams"
  then have d: "distinct (map fst queryParams)" by simp
  let ?kept = "filter (\<lambda>(k, v). v \<noteq> JUndefined \<and> v \<noteq> JNull) queryParams"
  have qp: "query_params [] queryParams = map (\<lambda>(k, v). (k, entry_text v)) ?kept"
    using query_params_distinct [OF d, of "[]"] by simp
  have ser: "usp_toString (map (\<lambda>(k, v). (k, entry_text v)) ?kept)
      = join ''&'' (map (\<lambda>(k, v). form_encode k @ ''='' @ form_encode (entry_text v)) ?kept)"
    by (simp add: usp_toString_def comp_def case_prod_unfold)
  have spec: "buildQueryString_spec queryParams
      = (if ?kept = [] then []
         else CHR ''?'' # join ''&''
           (map (\<lambda>(k, v). form_encode k @ ''='' @ form_encode (entry_text v)) ?kept))"
    by (simp add: buildQueryString_spec_def Let_def)
  show "buildQueryString queryParams = buildQueryString_spec queryParams"
  proof (cases "?kept = []")
    case True
    then show ?thesis
      by (simp add: buildQueryString_def spec qp usp_toString_def)
  next
    case False
    then have "usp_toString (map (\<lambda>(k, v). (k, entry_text v)) ?kept) \<noteq> []"
      by (simp add: usp_toString_empty)
    moreover from False have "queryParams \<noteq> []" by auto
    ultimately show ?thesis using False
      by (simp add: buildQueryString_def spec qp ser Let_def)
  qed
next
  show "buildQueryString [(''limit'', JNum 10)] = ''?limit=10''" by code_simp
next
  show "buildQueryString [] = []" by (simp add: buildQueryString_def)
next
  show "buildQueryString [(''filter'', JObj [(''a'', JNum 1)])] = ''?filter=%7B%22a%22%3A1%7D''"
    by code_simp
next
  show "buildQueryString [(''limit'', JOtherNum ''1.5'')] = ''?limit=1.5''" by code_simp
next
  show "buildQueryString [(''limit'', JOtherNum ''1e+21'')] = ''?limit=1e%2B21''" by code_simp
qed

text \<open>
  The theorem at an object with a null entry, an object value that holds a fraction, and
  scalars.
\<close>

theorem buildQueryString_refines_spec_witness:
  "distinct (map fst [(''page'', JNum 2), (''cursor'', JNull),
       (''metadata'', JObj [(''k'', JStr ''a b''), (''rate'', JOtherNum ''1.5'')]),
       (''q'', JStr ''x&y''), (''all'', JBool True)])
   \<and> representable_members [(''page'', JNum 2), (''cursor'', JNull),
       (''metadata'', JObj [(''k'', JStr ''a b''), (''rate'', JOtherNum ''1.5'')]),
       (''q'', JStr ''x&y''), (''all'', JBool True)]
   \<and> buildQueryString [(''page'', JNum 2), (''cursor'', JNull),
       (''metadata'', JObj [(''k'', JStr ''a b''), (''rate'', JOtherNum ''1.5'')]),
       (''q'', JStr ''x&y''), (''all'', JBool True)]
     = buildQueryString_spec [(''page'', JNum 2), (''cursor'', JNull),
       (''metadata'', JObj [(''k'', JStr ''a b''), (''rate'', JOtherNum ''1.5'')]),
       (''q'', JStr ''x&y''), (''all'', JBool True)]
   \<and> buildQueryString_spec [(''page'', JNum 2), (''cursor'', JNull),
       (''metadata'', JObj [(''k'', JStr ''a b''), (''rate'', JOtherNum ''1.5'')]),
       (''q'', JStr ''x&y''), (''all'', JBool True)]
     = ''?page=2&metadata=%7B%22k%22%3A%22a+b%22%2C%22rate%22%3A1.5%7D&q=x%26y&all=true''"
proof -
  let ?qp = "[(''page'', JNum 2), (''cursor'', JNull),
       (''metadata'', JObj [(''k'', JStr ''a b''), (''rate'', JOtherNum ''1.5'')]),
       (''q'', JStr ''x&y''), (''all'', JBool True)]"
  have d: "distinct (map fst ?qp)" by simp
  have r: "representable_members ?qp"
    by (simp add: safe_integer_def MAX_SAFE_INTEGER_def)
  from buildQueryString_refines_spec [of ?qp] d r
  have e: "buildQueryString ?qp = buildQueryString_spec ?qp" by blast
  have v: "buildQueryString_spec ?qp
      = ''?page=2&metadata=%7B%22k%22%3A%22a+b%22%2C%22rate%22%3A1.5%7D&q=x%26y&all=true''"
    by code_simp
  from d r e v show ?thesis by blast
qed

section \<open>The registry\<close>

text \<open>
  Every schema module is well formed; the check runs over the ninety-three actions. The
  resource names are distinct, so the map holds each schema under its name, and a
  registered pair resolves to the descriptor of its action.
\<close>

lemma wf_organizations: "well_formed_schema organizationsSchema" by code_simp
lemma wf_ledgers: "well_formed_schema ledgersSchema" by code_simp
lemma wf_assets: "well_formed_schema assetsSchema" by code_simp
lemma wf_portfolios: "well_formed_schema portfoliosSchema" by code_simp
lemma wf_segments: "well_formed_schema segmentsSchema" by code_simp
lemma wf_accounts: "well_formed_schema accountsSchema" by code_simp
lemma wf_accountTypes: "well_formed_schema accountTypesSchema" by code_simp
lemma wf_transactions: "well_formed_schema transactionsSchema" by code_simp
lemma wf_operations: "well_formed_schema operationsSchema" by code_simp
lemma wf_balances: "well_formed_schema balancesSchema" by code_simp
lemma wf_assetRates: "well_formed_schema assetRatesSchema" by code_simp
lemma wf_operationRoutes: "well_formed_schema operationRoutesSchema" by code_simp
lemma wf_transactionRoutes: "well_formed_schema transactionRoutesSchema" by code_simp
lemma wf_metadataIndexes: "well_formed_schema metadataIndexesSchema" by code_simp
lemma wf_holders: "well_formed_schema holdersSchema" by code_simp
lemma wf_aliases: "well_formed_schema aliasesSchema" by code_simp

lemma registry_well_formed: "\<forall>schema \<in> set allSchemas. well_formed_schema schema"
  by (simp add: allSchemas_def wf_organizations wf_ledgers wf_assets wf_portfolios wf_segments
      wf_accounts wf_accountTypes wf_transactions wf_operations wf_balances wf_assetRates
      wf_operationRoutes wf_transactionRoutes wf_metadataIndexes wf_holders wf_aliases)

lemma resource_names:
  "map rs_resource allSchemas =
     [''organizations'', ''ledgers'', ''assets'', ''portfolios'', ''segments'', ''accounts'',
      ''account-types'', ''transactions'', ''operations'', ''balances'', ''asset-rates'',
      ''operation-routes'', ''transaction-routes'', ''metadata-indexes'', ''holders'', ''aliases'']"
  by (simp add: allSchemas_def organizationsSchema_def ledgersSchema_def assetsSchema_def
      portfoliosSchema_def segmentsSchema_def accountsSchema_def accountTypesSchema_def
      transactionsSchema_def operationsSchema_def balancesSchema_def assetRatesSchema_def
      operationRoutesSchema_def transactionRoutesSchema_def metadataIndexesSchema_def
      holdersSchema_def aliasesSchema_def)

lemma resource_names_distinct: "distinct (map rs_resource allSchemas)"
  unfolding resource_names by simp

lemma fill_map_other:
  "r \<notin> rs_resource ` set xs \<Longrightarrow> foldl schemaMap_set m0 xs r = m0 r"
  by (induction xs arbitrary: m0) (auto simp: schemaMap_set_def)

lemma fill_map_lookup:
  "distinct (map rs_resource xs) \<Longrightarrow> s \<in> set xs \<Longrightarrow>
   foldl schemaMap_set m0 xs (rs_resource s) = Some s"
proof (induction xs arbitrary: m0)
  case Nil then show ?case by simp
next
  case (Cons x xs)
  show ?case
  proof (cases "s = x")
    case True
    with Cons.prems have "rs_resource x \<notin> rs_resource ` set xs" by auto
    then have "foldl schemaMap_set (schemaMap_set m0 x) xs (rs_resource x) = schemaMap_set m0 x (rs_resource x)"
      by (rule fill_map_other)
    moreover have "schemaMap_set m0 x (rs_resource x) = Some x"
      by (simp add: schemaMap_set_def)
    ultimately show ?thesis using True by simp
  next
    case False
    with Cons show ?thesis by auto
  qed
qed

lemma getSchema_registered: "schema \<in> set allSchemas \<Longrightarrow> getSchema (rs_resource schema) = Some schema"
  unfolding getSchema_def schemaMap_def using resource_names_distinct by (rule fill_map_lookup)

lemma getSchema_unregistered: "resource \<notin> set (map rs_resource allSchemas) \<Longrightarrow> getSchema resource = None"
  unfolding getSchema_def schemaMap_def by (simp add: fill_map_other)

lemma get_property_own:
  "distinct (map fst entries) \<Longrightarrow> (k, v) \<in> set entries \<Longrightarrow> get_property entries k = Own v"
  by (simp add: get_property_def)

lemma resolveAction_registered:
  assumes "schema \<in> set allSchemas" and "(action, actionDef) \<in> set (rs_actions schema)"
  shows "resolveAction (rs_resource schema) action =
           Resolved \<lparr>d_resource = rs_resource schema, d_action = action,
             d_component = rs_component schema, d_method = Some (ad_method actionDef),
             d_pathTemplate = Some (ad_path actionDef), d_pathParams = declared_params actionDef\<rparr>"
proof -
  have "distinct (map fst (rs_actions schema))"
    using registry_well_formed assms(1) by (auto simp: well_formed_schema_def)
  then have "get_property (rs_actions schema) action = Own actionDef"
    using assms(2) by (rule get_property_own)
  then show ?thesis
    by (simp add: resolveAction_def getSchema_registered [OF assms(1)] declared_params_def)
qed

lemma getSchema_organizations: "getSchema ''organizations'' = Some organizationsSchema"
proof -
  have "organizationsSchema \<in> set allSchemas" by (simp add: allSchemas_def)
  from getSchema_registered [OF this] show ?thesis by (simp add: organizationsSchema_def)
qed

lemma getSchema_ledgers: "getSchema ''ledgers'' = Some ledgersSchema"
proof -
  have "ledgersSchema \<in> set allSchemas" by (simp add: allSchemas_def)
  from getSchema_registered [OF this] show ?thesis by (simp add: ledgersSchema_def)
qed

lemma resolveAction_ledgers_get:
  "resolveAction ''ledgers'' ''get''
     = Resolved \<lparr>d_resource = ''ledgers'', d_action = ''get'', d_component = ''onboarding'',
         d_method = Some ''GET'', d_pathTemplate = Some ''/v1/organizations/:organizationId/ledgers/:id'',
         d_pathParams = [(''organizationId'', True), (''id'', True)]\<rparr>"
  by (simp add: resolveAction_def getSchema_ledgers get_property_def ledgersSchema_def)

text \<open>
  Claim C4. For every (resource, action) pair of the registry, \<open>resolveAction\<close> returns a
  descriptor whose method is one of GET, POST, PUT, PATCH, DELETE, HEAD and whose path
  template has exactly the keys of its \<open>pathParams\<close> as placeholders, \<open>pathParams\<close> being
  the schema's, or empty when the schema declares none.
\<close>

theorem registry_descriptors_well_formed:
  "\<forall>schema \<in> set allSchemas. \<forall>(action, actionDef) \<in> set (rs_actions schema).
     \<exists>d. resolveAction (rs_resource schema) action = Resolved d
       \<and> (\<exists>m. d_method d = Some m \<and> m \<in> set http_methods)
       \<and> (\<exists>t. d_pathTemplate d = Some t \<and> set (path_tokens t) = fst ` set (d_pathParams d))
       \<and> d_pathParams d = (case ad_pathParams actionDef of Some ps \<Rightarrow> ps | None \<Rightarrow> [])"
proof (intro ballI, clarify)
  fix schema action actionDef
  assume s: "schema \<in> set allSchemas" and a: "(action, actionDef) \<in> set (rs_actions schema)"
  have "well_formed_schema schema" using registry_well_formed s by blast
  with a have wf: "well_formed_action actionDef"
    by (auto simp: well_formed_schema_def list_all_iff)
  show "\<exists>d. resolveAction (rs_resource schema) action = Resolved d
       \<and> (\<exists>m. d_method d = Some m \<and> m \<in> set http_methods)
       \<and> (\<exists>t. d_pathTemplate d = Some t \<and> set (path_tokens t) = fst ` set (d_pathParams d))
       \<and> d_pathParams d = (case ad_pathParams actionDef of Some ps \<Rightarrow> ps | None \<Rightarrow> [])"
    using wf by (simp add: resolveAction_registered [OF s a] well_formed_action_def declared_params_def)
qed

text \<open>The theorem at the pair (organizations, get).\<close>

theorem registry_descriptors_well_formed_witness:
  "organizationsSchema \<in> set allSchemas
   \<and> (''get'', \<lparr>ad_method = ''GET'', ad_path = ''/v1/organizations/:id'',
                ad_pathParams = Some [(''id'', True)]\<rparr>) \<in> set (rs_actions organizationsSchema)
   \<and> (\<exists>d. resolveAction ''organizations'' ''get'' = Resolved d
         \<and> d_method d = Some ''GET''
         \<and> d_pathTemplate d = Some ''/v1/organizations/:id''
         \<and> set (path_tokens ''/v1/organizations/:id'') = fst ` set (d_pathParams d)
         \<and> d_pathParams d = [(''id'', True)])"
proof -
  let ?def = "\<lparr>ad_method = ''GET'', ad_path = ''/v1/organizations/:id'',
                ad_pathParams = Some [(''id'', True)]\<rparr>"
  have s: "organizationsSchema \<in> set allSchemas" by (simp add: allSchemas_def)
  have a: "(''get'', ?def) \<in> set (rs_actions organizationsSchema)"
    by (simp add: organizationsSchema_def)
  have r: "rs_resource organizationsSchema = ''organizations''"
    by (simp add: organizationsSchema_def)
  from registry_descriptors_well_formed s a
  have "\<exists>d. resolveAction (rs_resource organizationsSchema) ''get'' = Resolved d
       \<and> (\<exists>m. d_method d = Some m \<and> m \<in> set http_methods)
       \<and> (\<exists>t. d_pathTemplate d = Some t \<and> set (path_tokens t) = fst ` set (d_pathParams d))
       \<and> d_pathParams d = (case ad_pathParams ?def of Some ps \<Rightarrow> ps | None \<Rightarrow> [])"
    by fast
  then obtain d where d: "resolveAction ''organizations'' ''get'' = Resolved d"
    and t: "\<exists>t. d_pathTemplate d = Some t \<and> set (path_tokens t) = fst ` set (d_pathParams d)"
    and p: "d_pathParams d = [(''id'', True)]"
    unfolding r by auto
  from resolveAction_registered [OF s a] d
  have m: "d_method d = Some ''GET''" and pt: "d_pathTemplate d = Some ''/v1/organizations/:id''"
    by (auto simp: r)
  from s a d m pt t p show ?thesis by auto
qed

text \<open>
  Claim C7 has \<open>resolveAction\<close> return an error that lists the available actions for
  every unknown action of a registered resource. The code at \<open>("organizations",
  "constructor")\<close>: the property read \<open>schema.actions[action]\<close> finds the member inherited
  from \<open>Object.prototype\<close>, which is truthy, so the result is a descriptor without method
  and path and no error. An unknown action that names no inherited member, and an unknown
  resource, get the error the claim describes.
\<close>

theorem resolveAction_inherited_member:
  "resolveAction ''organizations'' ''constructor''
     = Resolved \<lparr>d_resource = ''organizations'', d_action = ''constructor'',
         d_component = ''onboarding'', d_method = None, d_pathTemplate = None,
         d_pathParams = []\<rparr>
   \<and> resolveAction ''organizations'' ''bogus-action''
     = ResolveError (''Unknown action '' @ quoted ''bogus-action'' @ '' for resource ''
         @ quoted ''organizations''
         @ ''. Available actions: create, get, list, update, delete, count'')
   \<and> resolveAction ''bogus-resource'' ''get''
     = ResolveError (''Unknown resource '' @ quoted ''bogus-resource''
         @ ''. Use midaz-discover to list available resources.'')"
proof -
  have "getSchema ''bogus-resource'' = None"
    by (rule getSchema_unregistered) (simp add: resource_names)
  then show ?thesis
    by (simp add: resolveAction_def getSchema_organizations get_property_def
        object_prototype_members_def organizationsSchema_def)
qed

section \<open>Dispatch\<close>

text \<open>
  Claim C1 has \<open>execute\<close> answer a missing required path parameter with the code
  \<open>INVALID_PARAMS\<close>. The code at (ledgers, get) with \<open>pathParams\<close> omitted, and with an
  empty \<open>id\<close>: the message names every missing parameter and no request is issued, but
  the failure carries no status and matches no failure shape of the \<open>catch\<close> block, so the
  code is \<open>INTERNAL_ERROR\<close>. The neighbouring check of the same handler, for a missing
  resource or action, answers \<open>INVALID_PARAMS\<close>.
\<close>

theorem handleExecute_missing_path_params:
  "handleExecute api fetch \<lparr>ea_resource = Some ''ledgers'', ea_action = Some ''get'',
       ea_pathParams = None, ea_queryParams = qp, ea_body = b\<rparr>
     = (ErrorResponse INTERNAL_ERROR
          ''Missing required path parameters: organizationId, id'' None, [])
   \<and> handleExecute api fetch \<lparr>ea_resource = Some ''ledgers'', ea_action = Some ''get'',
       ea_pathParams = Some [(''organizationId'', ''o1''), (''id'', [])], ea_queryParams = qp,
       ea_body = b\<rparr>
     = (ErrorResponse INTERNAL_ERROR ''Missing required path parameters: id'' None, [])
   \<and> handleExecute api fetch \<lparr>ea_resource = Some ''ledgers'', ea_action = None,
       ea_pathParams = None, ea_queryParams = qp, ea_body = b\<rparr>
     = (ErrorResponse INVALID_PARAMS required_message None, [])"
  by (simp add: handleExecute_def execute_route_args_def routeAndExecute_def
      resolveAction_ledgers_get missingParams_def supplied_def get_property_def
      object_prototype_members_def classify_def new_error_def str_includes_def)

section \<open>Discovery\<close>

lemma count_loop_sum:
  "count_loop count xs = count + sum_list (map (\<lambda>schema. length (rs_actions schema)) xs)"
  by (induction xs arbitrary: count) auto

text \<open>
  Claim C9. \<open>getEndpointCount()\<close> is the sum, over the schemas of the registry, of the
  number of actions each declares, and the \<open>list-resources\<close> intent reports this value as
  \<open>totalEndpoints\<close>; it is 93.
\<close>

theorem getEndpointCount_is_sum_of_actions:
  "getEndpointCount = sum_list (map (\<lambda>schema. length (rs_actions schema)) allSchemas)
   \<and> lr_totalEndpoints handleDiscover_list_resources = getEndpointCount
   \<and> lr_totalResources handleDiscover_list_resources = length allSchemas
   \<and> getEndpointCount = 93"
proof -
  have sum: "getEndpointCount = sum_list (map (\<lambda>schema. length (rs_actions schema)) allSchemas)"
    by (simp add: getEndpointCount_def getAllSchemas_def count_loop_sum)
  have "sum_list (map (\<lambda>schema. length (rs_actions schema)) allSchemas) = 93"
    by (simp add: allSchemas_def organizationsSchema_def ledgersSchema_def assetsSchema_def
      portfoliosSchema_def segmentsSchema_def accountsSchema_def accountTypesSchema_def
      transactionsSchema_def operationsSchema_def balancesSchema_def assetRatesSchema_def
      operationRoutesSchema_def transactionRoutesSchema_def metadataIndexesSchema_def
      holdersSchema_def aliasesSchema_def)
  with sum have n: "getEndpointCount = 93" by simp
  have te: "lr_totalEndpoints handleDiscover_list_resources = getEndpointCount"
    by (simp add: handleDiscover_list_resources_def Let_def)
  have tr: "lr_totalResources handleDiscover_list_resources = length allSchemas"
    by (simp add: handleDiscover_list_resources_def Let_def listResources_def)
  from sum te tr n show ?thesis by blast
qed

section \<open>HTTP executor: responses\<close>

text \<open>The worked calls, evaluated.\<close>

lemma onboarding_url: "getComponentUrl local_api ''onboarding'' = Url ''http://localhost:3000''"
  by (simp add: getComponentUrl_def local_api_def get_property_def)

lemma upper_GET: "toUpperCase ''GET'' = ''GET''" and upper_HEAD: "toUpperCase ''HEAD'' = ''HEAD''"
  by (simp_all add: toUpperCase_def)

lemma read_not_found: "read_body not_found = Inr (JObj [(''code'', JStr ''0007'')])"
  by (simp add: read_body_def not_found_def headers_get_def toLowerCase_def or_else_def
      str_includes_def)

lemma not_found_not_ok: "\<not> ok not_found"
  by (simp add: ok_def not_found_def)

lemma get_organization_url:
  "buildUrl (Url ''http://localhost:3000'') (Some ''/v1/organizations/:id'') [(''id'', ''42'')]
     = Inr ''http://localhost:3000/v1/organizations/42''"
  by (simp add: buildUrl_def base_text_def replace_def encodeURIComponent_def
      uri_unreserved_def alnum_def)

lemma count_url:
  "buildUrl (Url ''http://localhost:3000'') (Some ''/v1/organizations/metrics/count'') []
     = Inr ''http://localhost:3000/v1/organizations/metrics/count''"
  by (simp add: buildUrl_def base_text_def)

lemma get_organization_request:
  "executeRequest local_api (\<lambda>req. Inr not_found) get_organization
     = (Inl (http_error not_found (JObj [(''code'', JStr ''0007'')])
               ''http://localhost:3000/v1/organizations/42''),
        [\<lparr>req_url = ''http://localhost:3000/v1/organizations/42'', req_method = ''GET'',
           req_headers = json_headers, req_body = None, req_timeout = 30000\<rparr>])"
proof -
  have i: "interpret_response ''GET'' ''http://localhost:3000/v1/organizations/42'' not_found
      = Inl (http_error not_found (JObj [(''code'', JStr ''0007'')])
               ''http://localhost:3000/v1/organizations/42'')"
    by (simp add: interpret_response_def upper_GET read_not_found not_found_not_ok)
  have c: "timeout local_api = None" "authToken local_api = None"
    by (simp_all add: local_api_def)
  show ?thesis
    unfolding executeRequest_def get_organization_def
    by (simp add: onboarding_url get_organization_url buildQueryString_def upper_GET i c
        json_headers_def Let_def)
qed

lemma count_organizations_request:
  "executeRequest local_api (\<lambda>req. Inr not_found) count_organizations
     = (Inr (JObj [(''status'', JNum 404),
                   (''headers'', JObj [(''content-type'', JStr ''application/json'')]),
                   (''count'', JNull)]),
        [\<lparr>req_url = ''http://localhost:3000/v1/organizations/metrics/count'',
           req_method = ''HEAD'', req_headers = json_headers, req_body = None,
           req_timeout = 30000\<rparr>])"
proof -
  have i: "interpret_response ''HEAD'' ''http://localhost:3000/v1/organizations/metrics/count''
      not_found
      = Inr (JObj [(''status'', JNum 404),
                   (''headers'', JObj [(''content-type'', JStr ''application/json'')]),
                   (''count'', JNull)])"
    by (simp add: interpret_response_def upper_HEAD not_found_def headers_get_def
        toLowerCase_def or_else_def)
  have c: "timeout local_api = None" "authToken local_api = None"
    by (simp_all add: local_api_def)
  show ?thesis
    unfolding executeRequest_def count_organizations_def
    by (simp add: onboarding_url count_url buildQueryString_def upper_HEAD i c json_headers_def
        Let_def)
qed

text \<open>
  A call that issued the request \<open>req\<close> and got a response returns what
  \<open>interpret_response\<close> makes of it.
\<close>

lemma executeRequest_issued:
  "executeRequest api fetch rq = (outcome, [req]) \<Longrightarrow> fetch req = Inr r \<Longrightarrow>
   \<exists>m. er_method rq = Some m \<and> req_method req = toUpperCase m
     \<and> outcome = interpret_response m (req_url req) r"
  by (auto simp: executeRequest_def Let_def split: sum.splits option.splits)

text \<open>
  Claim C3, as amended. When \<open>executeRequest\<close> has issued its request and the backend
  has answered: for every method but \<open>HEAD\<close>, on a status outside 2xx it raises a failure
  and never returns a payload, and when the body can be read (as JSON or as text, by the
  content type) the failure carries the response's status and status text, that body and
  the request's URL; for \<open>HEAD\<close> it returns the payload \<open>{status, headers, count}\<close> with
  the response's status, whatever it is.
\<close>

theorem executeRequest_non_2xx:
  "executeRequest api fetch rq = (outcome, [req]) \<Longrightarrow> fetch req = Inr r \<Longrightarrow>
   (\<not> ok r \<and> req_method req \<noteq> ''HEAD'' \<longrightarrow>
      (\<exists>e. outcome = Inl e)
      \<and> (\<forall>body. read_body r = Inr body \<longrightarrow>
            outcome = Inl (http_error r body (req_url req))
            \<and> err_status (http_error r body (req_url req)) = Some (resp_status r)
            \<and> err_statusText (http_error r body (req_url req)) = Some (resp_statusText r)
            \<and> err_body (http_error r body (req_url req)) = Some body
            \<and> err_url (http_error r body (req_url req)) = Some (req_url req)))
   \<and> (req_method req = ''HEAD'' \<longrightarrow>
      (\<exists>headers count. outcome = Inr (JObj [(''status'', JNum (int (resp_status r))),
          (''headers'', headers), (''count'', count)])))"
proof -
  assume ex: "executeRequest api fetch rq = (outcome, [req])" and f: "fetch req = Inr r"
  from executeRequest_issued [OF ex f] obtain m where
    m: "req_method req = toUpperCase m" and out: "outcome = interpret_response m (req_url req) r"
    by blast
  show ?thesis
  proof (cases "toUpperCase m = ''HEAD''")
    case True
    then show ?thesis using m out by (simp add: interpret_response_def)
  next
    case False
    show ?thesis
    proof (cases "ok r")
      case True
      with False m show ?thesis by simp
    next
      case bad: False
      have not204: "resp_status r \<noteq> 204" using bad by (auto simp: ok_def)
      from False m out bad not204 show ?thesis
        by (auto simp: interpret_response_def http_error_def split: sum.splits)
    qed
  qed
qed

text \<open>The theorem at a \<open>GET\<close> and at a \<open>HEAD\<close>, each answered with 404.\<close>

theorem executeRequest_non_2xx_witness:
  "executeRequest local_api (\<lambda>req. Inr not_found) get_organization
     = (Inl (http_error not_found (JObj [(''code'', JStr ''0007'')])
               ''http://localhost:3000/v1/organizations/42''),
        [\<lparr>req_url = ''http://localhost:3000/v1/organizations/42'', req_method = ''GET'',
           req_headers = json_headers, req_body = None, req_timeout = 30000\<rparr>])
   \<and> \<not> ok not_found
   \<and> read_body not_found = Inr (JObj [(''code'', JStr ''0007'')])
   \<and> err_status (http_error not_found (JObj [(''code'', JStr ''0007'')])
         ''http://localhost:3000/v1/organizations/42'') = Some 404
   \<and> err_url (http_error not_found (JObj [(''code'', JStr ''0007'')])
         ''http://localhost:3000/v1/organizations/42'')
       = Some ''http://localhost:3000/v1/organizations/42''
   \<and> (\<exists>headers count.
         fst (executeRequest local_api (\<lambda>req. Inr not_found) count_organizations)
           = Inr (JObj [(''status'', JNum 404), (''headers'', headers), (''count'', count)]))"
proof -
  let ?req = "\<lparr>req_url = ''http://localhost:3000/v1/organizations/42'', req_method = ''GET'',
           req_headers = json_headers, req_body = None, req_timeout = 30000\<rparr>"
  let ?head = "\<lparr>req_url = ''http://localhost:3000/v1/organizations/metrics/count'',
           req_method = ''HEAD'', req_headers = json_headers, req_body = None,
           req_timeout = 30000\<rparr>"
  have st: "resp_status not_found = 404" by (simp add: not_found_def)
  have fh: "(\<lambda>req. Inr not_found) ?head = (Inr not_found :: js_error + response)" by simp
  have "req_method ?head = ''HEAD''" by simp
  with executeRequest_non_2xx [OF count_organizations_request fh]
  have "\<exists>headers count. Inr (JObj [(''status'', JNum 404),
                   (''headers'', JObj [(''content-type'', JStr ''application/json'')]),
                   (''count'', JNull)])
      = (Inr (JObj [(''status'', JNum (int (resp_status not_found))), (''headers'', headers),
           (''count'', count)]) :: js_error + jsval)"
    by blast
  then have head: "\<exists>headers count.
         fst (executeRequest local_api (\<lambda>req. Inr not_found) count_organizations)
           = Inr (JObj [(''status'', JNum 404), (''headers'', headers), (''count'', count)])"
    by (simp add: count_organizations_request st)
  have f: "(\<lambda>req. Inr not_found) ?req = (Inr not_found :: js_error + response)" by simp
  have nh: "req_method ?req \<noteq> ''HEAD''" by simp
  from executeRequest_non_2xx [OF get_organization_request f] not_found_not_ok nh read_not_found
  have "err_status (http_error not_found (JObj [(''code'', JStr ''0007'')]) (req_url ?req))
          = Some (resp_status not_found)"
    and "err_url (http_error not_found (JObj [(''code'', JStr ''0007'')]) (req_url ?req))
          = Some (req_url ?req)"
    by blast+
  with get_organization_request not_found_not_ok read_not_found head show ?thesis
    by (simp add: st)
qed

text \<open>
  Claim C3 as stated fails for \<open>HEAD\<close>: the branch for that method returns before
  \<open>response.ok\<close> is looked at, so a 404 comes back as a payload with \<open>status: 404\<close>.
\<close>

theorem executeRequest_head_counterexample:
  "executeRequest local_api (\<lambda>req. Inr not_found) count_organizations
     = (Inr (JObj [(''status'', JNum 404),
                   (''headers'', JObj [(''content-type'', JStr ''application/json'')]),
                   (''count'', JNull)]),
        [\<lparr>req_url = ''http://localhost:3000/v1/organizations/metrics/count'',
           req_method = ''HEAD'', req_headers = json_headers, req_body = None,
           req_timeout = 30000\<rparr>])
   \<and> \<not> ok not_found"
  using count_organizations_request not_found_not_ok by simp

section \<open>Execute tool: failures without a status\<close>

lemma timeout_message_names_variable: "str_includes timeout_message ''MIDAZ_*_URL''"
  by code_simp

lemma unavailable_message_names_variables:
  "str_includes unavailable_message ''MIDAZ_ONBOARDING_URL''
   \<and> str_includes unavailable_message ''MIDAZ_TRANSACTION_URL''
   \<and> str_includes unavailable_message ''MIDAZ_CRM_URL''
   \<and> str_includes unavailable_message ''MIDAZ_LEDGER_URL''"
  by code_simp

text \<open>
  Claim C2, as amended. For a failure thrown during \<open>execute\<close> that carries no HTTP
  status: a timeout (the name \<open>TimeoutError\<close>, or a message containing \<open>timeout\<close>)
  surfaces with the code \<open>BACKEND_ERROR\<close> and a message that points at the
  \<open>MIDAZ_*_URL\<close> configuration; a failure that is not a timeout and whose message
  contains \<open>fetch failed\<close> or \<open>ECONNREFUSED\<close> (a refused connection, a DNS failure)
  surfaces with the code \<open>RESOURCE_UNAVAILABLE\<close> and a message that names the four
  environment variables of the backends.
\<close>

theorem handleExecute_failure_without_status:
  "ea_resource args = Some resource \<Longrightarrow> ea_action args = Some action \<Longrightarrow>
   resource \<noteq> [] \<Longrightarrow> action \<noteq> [] \<Longrightarrow>
   routeAndExecute api fetch (execute_route_args resource action args) = (Inl err, calls) \<Longrightarrow>
   err_status err = None \<Longrightarrow>
   (err_name err = ''TimeoutError'' \<or> str_includes (err_message err) ''timeout'' \<longrightarrow>
      handleExecute api fetch args = (ErrorResponse BACKEND_ERROR timeout_message None, calls))
   \<and> (err_name err \<noteq> ''TimeoutError'' \<and> \<not> str_includes (err_message err) ''timeout''
       \<and> (str_includes (err_message err) ''fetch failed''
            \<or> str_includes (err_message err) ''ECONNREFUSED'') \<longrightarrow>
      handleExecute api fetch args
        = (ErrorResponse RESOURCE_UNAVAILABLE unavailable_message None, calls))
   \<and> str_includes timeout_message ''MIDAZ_*_URL''
   \<and> str_includes unavailable_message ''MIDAZ_ONBOARDING_URL''
   \<and> str_includes unavailable_message ''MIDAZ_TRANSACTION_URL''
   \<and> str_includes unavailable_message ''MIDAZ_CRM_URL''
   \<and> str_includes unavailable_message ''MIDAZ_LEDGER_URL''"
proof -
  assume a: "ea_resource args = Some resource" "ea_action args = Some action"
    "resource \<noteq> []" "action \<noteq> []"
    and r: "routeAndExecute api fetch (execute_route_args resource action args) = (Inl err, calls)"
    and s: "err_status err = None"
  have h: "handleExecute api fetch args = (classify err, calls)"
    using a r by (simp add: handleExecute_def)
  have t: "classify err = ErrorResponse BACKEND_ERROR timeout_message None"
    if "err_name err = ''TimeoutError'' \<or> str_includes (err_message err) ''timeout''"
    using that s by (auto simp: classify_def)
  have c: "classify err = ErrorResponse RESOURCE_UNAVAILABLE unavailable_message None"
    if "err_name err \<noteq> ''TimeoutError''" "\<not> str_includes (err_message err) ''timeout''"
      "str_includes (err_message err) ''fetch failed''
         \<or> str_includes (err_message err) ''ECONNREFUSED''"
    using that s by (auto simp: classify_def)
  from h t c timeout_message_names_variable unavailable_message_names_variables
  show ?thesis by simp
qed

lemma resolveAction_organizations_list:
  "resolveAction ''organizations'' ''list''
     = Resolved \<lparr>d_resource = ''organizations'', d_action = ''list'', d_component = ''onboarding'',
         d_method = Some ''GET'', d_pathTemplate = Some ''/v1/organizations'',
         d_pathParams = []\<rparr>"
  by (simp add: resolveAction_def getSchema_organizations get_property_def organizationsSchema_def)

lemma list_query: "buildQueryString [(''limit'', JNum 10)] = ''?limit=10''"
  by code_simp

lemma list_url:
  "buildUrl (Url ''http://localhost:3000'') (Some ''/v1/organizations'') []
     = Inr ''http://localhost:3000/v1/organizations''"
  by (simp add: buildUrl_def base_text_def)

lemma list_organizations_rejected:
  "routeAndExecute local_api (\<lambda>req. Inl e)
     (execute_route_args ''organizations'' ''list'' list_organizations) = (Inl e, [list_request])"
proof -
  have c: "timeout local_api = None" "authToken local_api = None"
    by (simp_all add: local_api_def)
  have "executeRequest local_api (\<lambda>req. Inl e)
      \<lparr>er_component = ''onboarding'', er_method = Some ''GET'',
       er_pathTemplate = Some ''/v1/organizations'', er_pathParams = [],
       er_queryParams = [(''limit'', JNum 10)], er_body = None\<rparr> = (Inl e, [list_request])"
    unfolding executeRequest_def
    by (simp add: onboarding_url list_url list_query upper_GET c json_headers_def
        list_request_def Let_def)
  then show ?thesis
    by (simp add: routeAndExecute_def execute_route_args_def list_organizations_def
        resolveAction_organizations_list missingParams_def)
qed

text \<open>The theorem at a refused connection and at a timeout while listing organizations.\<close>

theorem handleExecute_failure_without_status_witness:
  "routeAndExecute local_api (\<lambda>req. Inl connection_failure)
     (execute_route_args ''organizations'' ''list'' list_organizations)
     = (Inl connection_failure, [list_request])
   \<and> err_status connection_failure = None
   \<and> err_name connection_failure \<noteq> ''TimeoutError''
   \<and> \<not> str_includes (err_message connection_failure) ''timeout''
   \<and> str_includes (err_message connection_failure) ''fetch failed''
   \<and> handleExecute local_api (\<lambda>req. Inl connection_failure) list_organizations
     = (ErrorResponse RESOURCE_UNAVAILABLE unavailable_message None, [list_request])
   \<and> err_status timeout_failure = None
   \<and> err_name timeout_failure = ''TimeoutError''
   \<and> fst (handleExecute local_api (\<lambda>req. Inl timeout_failure) list_organizations)
     = ErrorResponse BACKEND_ERROR timeout_message None"
proof -
  have ts: "err_status timeout_failure = None"
    and tn: "err_name timeout_failure = ''TimeoutError''"
    by (simp_all add: timeout_failure_def new_error_def)
  have a: "ea_resource list_organizations = Some ''organizations''"
    "ea_action list_organizations = Some ''list''" "''organizations'' \<noteq> []" "''list'' \<noteq> []"
    by (simp_all add: list_organizations_def)
  have s: "err_status connection_failure = None"
    and n: "err_name connection_failure \<noteq> ''TimeoutError''"
    and nt: "\<not> str_includes (err_message connection_failure) ''timeout''"
    and ff: "str_includes (err_message connection_failure) ''fetch failed''"
    by (simp_all add: connection_failure_def new_error_def str_includes_def)
  from handleExecute_failure_without_status [OF a list_organizations_rejected s] n nt ff
  have "handleExecute local_api (\<lambda>req. Inl connection_failure) list_organizations
     = (ErrorResponse RESOURCE_UNAVAILABLE unavailable_message None, [list_request])"
    by blast
  moreover
  from handleExecute_failure_without_status [OF a list_organizations_rejected ts] tn
  have "fst (handleExecute local_api (\<lambda>req. Inl timeout_failure) list_organizations)
     = ErrorResponse BACKEND_ERROR timeout_message None"
    by simp
  ultimately show ?thesis
    using list_organizations_rejected [of connection_failure] s n nt ff ts tn by blast
qed

text \<open>
  Claim C2 as stated fails for a timeout: the \<open>catch\<close> block answers it with
  \<open>BACKEND_ERROR\<close>, not \<open>RESOURCE_UNAVAILABLE\<close>.
\<close>

theorem handleExecute_timeout_counterexample:
  "handleExecute local_api (\<lambda>req. Inl timeout_failure) list_organizations
     = (ErrorResponse BACKEND_ERROR timeout_message None, [list_request])
   \<and> err_status timeout_failure = None
   \<and> err_name timeout_failure = ''TimeoutError''"
proof -
  have "classify timeout_failure = ErrorResponse BACKEND_ERROR timeout_message None"
    by (simp add: classify_def timeout_failure_def new_error_def)
  then show ?thesis
    using list_organizations_rejected [of timeout_failure]
    by (simp add: handleExecute_def list_organizations_def timeout_failure_def new_error_def)
qed

section \<open>Health check\<close>

text \<open>
  Claim C8. For every configuration, component and outcome of the HTTP call,
  \<open>checkHealth\<close> resolves: when the call completes, to the result with the status, healthy
  exactly when the status is 2xx; when the call rejects (network error, timeout), to the
  unhealthy result with the error's message; both name the component and the base URL.
\<close>

theorem checkHealth_always_resolves:
  "\<exists>h. fst (checkHealth api fetch component) = Inr h
     \<and> h_component h = component
     \<and> h_url h = getComponentUrl api component
     \<and> (case fetch \<lparr>req_url = base_text (getComponentUrl api component) @ ''/health'',
                      req_method = ''GET'', req_headers = [(''Accept'', ''application/json'')],
                      req_body = None, req_timeout = 5000\<rparr> of
           Inr r \<Rightarrow> h_healthy h = (200 \<le> resp_status r \<and> resp_status r \<le> 299)
                     \<and> h_status h = Some (resp_status r) \<and> h_error h = None
         | Inl err \<Rightarrow> h_healthy h = False \<and> h_status h = None
                     \<and> h_error h = Some (err_message err))"
  by (simp add: checkHealth_def Let_def ok_def split: sum.split)

end
